theory Spec2Isabelle
  imports
    Complex_Main
    "HOL-Library.AList"
    "HOL-Library.Char_ord"
    "HOL-Library.List_Lexorder"
    "HOL-Library.Product_Lexorder"
begin

section \<open>The sales analysis script \<^verbatim>\<open>analyze_sales_data.py\<close>\<close>

text \<open>
  The script reads a CSV file into a pandas table, cleans it, computes grouped sums and
  writes charts and a text report. The embedding follows the script function by function.
  Conventions:
  \<^item> a table is the list of its rows; a row is a record of the columns the script names,
    with every other column of the file carried along in the field \<open>other\<close>;
  \<^item> a \<^verbatim>\<open>float64\<close> value is a rational number: sums and quotients are exact, rounding
    is outside the model. Where the script divides, the float results \<^verbatim>\<open>inf\<close>, \<^verbatim>\<open>-inf\<close> and
    \<^verbatim>\<open>nan\<close> are values of their own (type \<open>fval\<close>);
  \<^item> pandas writes a missing value as \<^verbatim>\<open>NaN\<close>, \<^verbatim>\<open>NaT\<close> or \<^verbatim>\<open>None\<close>; the model writes
    \<open>Null\<close> in a column of mixed content, \<open>None\<close> in a typed column and \<open>NaN\<close> in a
    column of float results;
  \<^item> the tables that \<^verbatim>\<open>clean_data\<close> creates and assigns to live in a store, an object
    per address, so that what the function changes and what it leaves alone is visible;
  \<^item> where the result of a library call is not fixed by the script (the parsers of numbers
    and dates, what \<^verbatim>\<open>astype(str)\<close> makes of a missing value, the order a sort leaves
    among rows of equal key), it is a parameter, and the theorems hold for each of its values.
\<close>

subsection \<open>Tables\<close>

record timestamp =
  year :: int
  month :: int
  day :: int
  clock :: nat

datatype cell = Null | Str string | Num rat | Stamp timestamp

record 'a row =
  Order_Date :: cell
  Sales :: cell
  Region :: "string option"
  Customer_ID :: "string option"
  Customer_Name :: "string option"
  Year :: "int option"
  Month :: "int option"
  Order_Month :: "string option"
  other :: 'a

type_synonym 'a frame = "'a row list"

type_synonym 'a store = "'a frame list"

text \<open>\<^verbatim>\<open>df.copy()\<close>, \<^verbatim>\<open>df.dropna(...)\<close> and \<^verbatim>\<open>df.drop_duplicates()\<close> return a new table:
  the store grows by one object, whose address is returned.\<close>

definition new_frame :: "'a frame \<Rightarrow> 'a store \<Rightarrow> nat \<times> 'a store" where
  "new_frame f h = (length h, h @ [f])"

text \<open>\<^verbatim>\<open>df[c] = values\<close> changes the table at the address \<open>df\<close> in place: row by row, the
  column \<open>c\<close> takes the new value.\<close>

definition setitem ::
  "('a row \<Rightarrow> 'v \<Rightarrow> 'a row) \<Rightarrow> nat \<Rightarrow> 'v list \<Rightarrow> 'a store \<Rightarrow> 'a store" where
  "setitem put df vals h = h[df := map2 put (h ! df) vals]"

subsection \<open>The pandas operations of the cleaner\<close>

text \<open>\<^verbatim>\<open>pd.to_numeric(col, errors="coerce")\<close>: every cell is parsed on its own; a cell that
  does not parse becomes missing. The parser of one cell is the parameter \<open>parse\<close>.\<close>

definition to_numeric :: "(cell \<Rightarrow> rat option) \<Rightarrow> cell list \<Rightarrow> cell list" where
  "to_numeric parse col = map (\<lambda>c. case parse c of Some x \<Rightarrow> Num x | None \<Rightarrow> Null) col"

text \<open>\<^verbatim>\<open>pd.to_datetime(col, errors="coerce")\<close>: a cell that does not parse becomes \<^verbatim>\<open>NaT\<close>.
  pandas may take the date format from the column as a whole, so the parser of one cell
  is given the column too.\<close>

definition to_datetime :: "(cell list \<Rightarrow> cell \<Rightarrow> timestamp option) \<Rightarrow> cell list \<Rightarrow> cell list" where
  "to_datetime parse col = map (\<lambda>c. case parse col c of Some t \<Rightarrow> Stamp t | None \<Rightarrow> Null) col"

definition dt_year :: "cell list \<Rightarrow> int option list" where
  "dt_year col = map (\<lambda>c. case c of Stamp t \<Rightarrow> Some (year t) | _ \<Rightarrow> None) col"

definition dt_month :: "cell list \<Rightarrow> int option list" where
  "dt_month col = map (\<lambda>c. case c of Stamp t \<Rightarrow> Some (month t) | _ \<Rightarrow> None) col"

definition digit :: "nat \<Rightarrow> char" where
  "digit n = ''0123456789'' ! (n mod 10)"

text \<open>A monthly period prints as \<^verbatim>\<open>%Y-%m\<close>: \<^verbatim>\<open>2024-03\<close>.\<close>

definition period_str :: "int \<Rightarrow> int \<Rightarrow> string" where
  "period_str y m =
     [digit (nat y div 1000), digit (nat y div 100), digit (nat y div 10), digit (nat y),
      CHR ''-'', digit (nat m div 10), digit (nat m)]"

text \<open>\<^verbatim>\<open>col.dt.to_period("M").astype(str)\<close>: a period becomes its printed form. What a
  missing period becomes depends on the pandas in use, which the script does not fix: it is
  the parameter \<open>na_rep\<close>. Under pandas 1 and 2, \<^verbatim>\<open>str\<close> is the object dtype and the missing
  period is printed like every other one, as the string \<^verbatim>\<open>NaT\<close>; under pandas 3, \<^verbatim>\<open>str\<close> is
  the string dtype and the missing period stays missing.\<close>

definition astype_str_pandas2 :: "string option" where
  "astype_str_pandas2 = Some ''NaT''"

definition astype_str_pandas3 :: "string option" where
  "astype_str_pandas3 = None"

definition dt_to_period_M_astype_str :: "string option \<Rightarrow> cell list \<Rightarrow> string option list" where
  "dt_to_period_M_astype_str na_rep col =
     map (\<lambda>c. case c of Stamp t \<Rightarrow> Some (period_str (year t) (month t)) | _ \<Rightarrow> na_rep) col"

definition dropna_Sales :: "'a frame \<Rightarrow> 'a frame" where
  "dropna_Sales f = filter (\<lambda>r. Sales r \<noteq> Null) f"

text \<open>\<^verbatim>\<open>drop_duplicates()\<close> keeps the first of the rows that agree on every column.\<close>

fun drop_duplicates :: "'r list \<Rightarrow> 'r list" where
  "drop_duplicates [] = []"
| "drop_duplicates (r # rs) = r # drop_duplicates (filter (\<lambda>s. s \<noteq> r) rs)"

subsection \<open>\<^verbatim>\<open>clean_data\<close>\<close>

text \<open>The argument \<open>df\<close> is the address of the caller's table. Each line of the function is
  one line of the definition; the local variable \<^verbatim>\<open>df\<close> is \<open>df1\<close>, \<open>df2\<close>, \<open>df3\<close> in turn.\<close>

definition clean_data ::
  "string option \<Rightarrow> (cell \<Rightarrow> rat option) \<Rightarrow> (cell list \<Rightarrow> cell \<Rightarrow> timestamp option) \<Rightarrow>
   nat \<Rightarrow> 'a store \<Rightarrow> nat \<times> 'a store" where
  "clean_data na_rep parse_number parse_date df h0 =
    (let (df1, h1) = new_frame (h0 ! df) h0;
         h2 = setitem (\<lambda>r v. r\<lparr>Sales := v\<rparr>) df1
                (to_numeric parse_number (map Sales (h1 ! df1))) h1;
         (df2, h3) = new_frame (dropna_Sales (h2 ! df1)) h2;
         h4 = setitem (\<lambda>r v. r\<lparr>Order_Date := v\<rparr>) df2
                (to_datetime parse_date (map Order_Date (h3 ! df2))) h3;
         h5 = setitem (\<lambda>r v. r\<lparr>Year := v\<rparr>) df2 (dt_year (map Order_Date (h4 ! df2))) h4;
         h6 = setitem (\<lambda>r v. r\<lparr>Month := v\<rparr>) df2 (dt_month (map Order_Date (h5 ! df2))) h5;
         h7 = setitem (\<lambda>r v. r\<lparr>Order_Month := v\<rparr>) df2
                (dt_to_period_M_astype_str na_rep (map Order_Date (h6 ! df2))) h6;
         (df3, h8) = new_frame (drop_duplicates (h7 ! df2)) h7
     in (df3, h8))"

text \<open>The table that \<^verbatim>\<open>clean_data\<close> returns for the table \<open>t\<close>.\<close>

definition cleaned ::
  "string option \<Rightarrow> (cell \<Rightarrow> rat option) \<Rightarrow> (cell list \<Rightarrow> cell \<Rightarrow> timestamp option) \<Rightarrow>
   'a frame \<Rightarrow> 'a frame" where
  "cleaned na_rep parse_number parse_date t =
     (let (df, h) = clean_data na_rep parse_number parse_date 0 [t] in h ! df)"

text \<open>What the cleaner makes of one row that it keeps, column by column; \<open>dates\<close> is the
  date column of the kept rows, from which pandas reads the date format.\<close>

definition clean_row ::
  "string option \<Rightarrow> (cell \<Rightarrow> rat option) \<Rightarrow> (cell list \<Rightarrow> cell \<Rightarrow> timestamp option) \<Rightarrow>
   cell list \<Rightarrow> 'a row \<Rightarrow> 'a row" where
  "clean_row na_rep parse_number parse_date dates r =
     (case parse_date dates (Order_Date r) of
        Some t \<Rightarrow> r\<lparr>Sales := (case parse_number (Sales r) of Some x \<Rightarrow> Num x | None \<Rightarrow> Null),
                    Order_Date := Stamp t, Year := Some (year t), Month := Some (month t),
                    Order_Month := Some (period_str (year t) (month t))\<rparr>
      | None \<Rightarrow> r\<lparr>Sales := (case parse_number (Sales r) of Some x \<Rightarrow> Num x | None \<Rightarrow> Null),
                    Order_Date := Null, Year := None, Month := None,
                    Order_Month := na_rep\<rparr>)"

definition kept_rows :: "(cell \<Rightarrow> rat option) \<Rightarrow> 'a frame \<Rightarrow> 'a frame" where
  "kept_rows parse_number t = filter (\<lambda>r. parse_number (Sales r) \<noteq> None) t"

subsection \<open>KPIs and grouped sums\<close>

text \<open>The aggregations read the column \<^verbatim>\<open>Sales\<close> as \<^verbatim>\<open>float64\<close>, which it is after
  cleaning. A sum skips missing values; the mean of no value is \<^verbatim>\<open>nan\<close>.\<close>

definition float_of :: "cell \<Rightarrow> rat option" where
  "float_of c = (case c of Num x \<Rightarrow> Some x | _ \<Rightarrow> None)"

definition nansum :: "rat option list \<Rightarrow> rat" where
  "nansum col = sum_list (map (\<lambda>v. case v of Some x \<Rightarrow> x | None \<Rightarrow> 0) col)"

definition nanmean :: "rat option list \<Rightarrow> rat option" where
  "nanmean col =
     (let xs = List.map_filter id col
      in if xs = [] then None else Some (sum_list xs / of_nat (length xs)))"

definition nunique :: "'k option list \<Rightarrow> nat" where
  "nunique col = length (remdups (List.map_filter id col))"

record kpis =
  Total_Sales :: rat
  Total_Orders :: nat
  Unique_Customers :: nat
  Average_Order_Value :: "rat option"

definition compute_kpis :: "'a frame \<Rightarrow> kpis" where
  "compute_kpis df =
     \<lparr>Total_Sales = nansum (map (float_of \<circ> Sales) df),
      Total_Orders = length df,
      Unique_Customers = nunique (map Customer_ID df),
      Average_Order_Value = nanmean (map (float_of \<circ> Sales) df)\<rparr>"

text \<open>\<^verbatim>\<open>df.groupby(key)["Sales"].sum().reset_index()\<close>: one row per value of the key, in
  ascending order of the key; rows whose key is missing belong to no group.\<close>

definition groupby_sum :: "('a row \<Rightarrow> 'k::linorder option) \<Rightarrow> 'a frame \<Rightarrow> ('k \<times> rat) list" where
  "groupby_sum key df =
     map (\<lambda>k. (k, nansum (map (float_of \<circ> Sales) (filter (\<lambda>r. key r = Some k) df))))
       (sort (remdups (List.map_filter key df)))"

text \<open>\<^verbatim>\<open>sort_values\<close>. For a descending sort pandas reverses the rows, sorts them in ascending
  order and reverses the result. Its default sort (numpy's quicksort) promises no order
  among rows of equal key, and the order it leaves depends on the platform. In the model
  the parameter \<open>tie\<close> ranks the rows of equal key, the higher rank first: every order of
  such rows is the model's order for some \<open>tie\<close>. (The grouped tables that \<^verbatim>\<open>sort_values\<close>
  sorts in ascending order have no two rows of equal key.)\<close>

definition sort_values :: "('r \<Rightarrow> 'k::linorder) \<Rightarrow> 'r list \<Rightarrow> 'r list" where
  "sort_values col rs = sort_key col rs"

definition sort_values_desc ::
  "('r \<Rightarrow> nat) \<Rightarrow> ('r \<Rightarrow> 'k::linorder) \<Rightarrow> 'r list \<Rightarrow> 'r list" where
  "sort_values_desc tie col rs = rev (sort_key (\<lambda>r. (col r, tie r)) (rev rs))"

text \<open>The rank that leaves rows of equal key in the order they had.\<close>

definition as_they_come :: "'r \<Rightarrow> nat" where
  "as_they_come r = 0"

text \<open>\<^verbatim>\<open>head(n)\<close> is the slice \<^verbatim>\<open>[:n]\<close>: for a negative \<open>n\<close>, all rows but the last \<open>-n\<close>.\<close>

definition head :: "int \<Rightarrow> 'r list \<Rightarrow> 'r list" where
  "head n rs = (if 0 \<le> n then take (nat n) rs else take (nat (int (length rs) + n)) rs)"

definition monthly_trend :: "'a frame \<Rightarrow> (string \<times> rat) list" where
  "monthly_trend df = sort_values fst (groupby_sum Order_Month df)"

definition revenue_by_region ::
  "(string \<times> rat \<Rightarrow> nat) \<Rightarrow> 'a frame \<Rightarrow> (string \<times> rat) list" where
  "revenue_by_region tie df = sort_values_desc tie snd (groupby_sum Region df)"

definition top_customers ::
  "(string \<times> rat \<Rightarrow> nat) \<Rightarrow> 'a frame \<Rightarrow> int \<Rightarrow> (string \<times> rat) list" where
  "top_customers tie df n = head n (sort_values_desc tie snd (groupby_sum Customer_Name df))"

subsection \<open>Year over year\<close>

definition year_month :: "'a row \<Rightarrow> (int \<times> int) option" where
  "year_month r =
     (case (Year r, Month r) of (Some y, Some m) \<Rightarrow> Some (y, m) | _ \<Rightarrow> None)"

text \<open>A row of the result is \<open>((Year, Month), Sales)\<close>.\<close>

definition yearly_trend :: "'a frame \<Rightarrow> ((int \<times> int) \<times> rat) list" where
  "yearly_trend df = sort_values fst (groupby_sum year_month df)"

datatype fval = NaN | Fin rat | PInf | MInf

fun fadd :: "fval \<Rightarrow> fval \<Rightarrow> fval" where
  "fadd (Fin a) (Fin b) = Fin (a + b)"
| "fadd NaN _ = NaN"
| "fadd _ NaN = NaN"
| "fadd PInf MInf = NaN"
| "fadd MInf PInf = NaN"
| "fadd PInf _ = PInf"
| "fadd MInf _ = MInf"
| "fadd _ PInf = PInf"
| "fadd _ MInf = MInf"

fun fneg :: "fval \<Rightarrow> fval" where
  "fneg NaN = NaN"
| "fneg (Fin a) = Fin (- a)"
| "fneg PInf = MInf"
| "fneg MInf = PInf"

definition fsub :: "fval \<Rightarrow> fval \<Rightarrow> fval" where
  "fsub a b = fadd a (fneg b)"

text \<open>The sign of a float that is not \<^verbatim>\<open>nan\<close>; a zero counts as positive (the sums of the
  script are never \<^verbatim>\<open>-0.0\<close>).\<close>

fun fsign :: "fval \<Rightarrow> int" where
  "fsign (Fin a) = (if a < 0 then - 1 else 1)"
| "fsign MInf = - 1"
| "fsign _ = 1"

definition signed_inf :: "int \<Rightarrow> fval" where
  "signed_inf s = (if s < 0 then MInf else PInf)"

fun fmul :: "fval \<Rightarrow> fval \<Rightarrow> fval" where
  "fmul (Fin a) (Fin b) = Fin (a * b)"
| "fmul NaN _ = NaN"
| "fmul _ NaN = NaN"
| "fmul a b = (if a = Fin 0 \<or> b = Fin 0 then NaN else signed_inf (fsign a * fsign b))"

text \<open>Float division raises nothing: a nonzero value over zero is an infinity, zero over
  zero is \<^verbatim>\<open>nan\<close>.\<close>

fun fdiv :: "fval \<Rightarrow> fval \<Rightarrow> fval" where
  "fdiv (Fin a) (Fin b) =
     (if b \<noteq> 0 then Fin (a / b) else if a = 0 then NaN else signed_inf (fsign (Fin a)))"
| "fdiv NaN _ = NaN"
| "fdiv _ NaN = NaN"
| "fdiv (Fin a) _ = Fin 0"
| "fdiv a (Fin b) = signed_inf (fsign a * fsign (Fin b))"
| "fdiv _ _ = NaN"

datatype label = YearL int | NameL string

text \<open>A pivot table: the months of the index, and the columns in order, each a label with
  one value per month.\<close>

record pivot =
  index :: "int list"
  data :: "(label \<times> fval list) list"

definition columns_of :: "pivot \<Rightarrow> label list" where
  "columns_of p = map fst (data p)"

text \<open>\<^verbatim>\<open>pivot[l]\<close>; every label the script looks up is one of the table's columns.\<close>

definition getitem :: "pivot \<Rightarrow> label \<Rightarrow> fval list" where
  "getitem p l = (case map_of (data p) l of Some col \<Rightarrow> col | None \<Rightarrow> [])"

text \<open>\<^verbatim>\<open>pivot[l] = col\<close>: the column is replaced, or added as the last one.\<close>

definition setitem_pivot :: "pivot \<Rightarrow> label \<Rightarrow> fval list \<Rightarrow> pivot" where
  "setitem_pivot p l col = p\<lparr>data := AList.update l col (data p)\<rparr>"

definition agg_sum :: "rat list \<Rightarrow> fval" where
  "agg_sum xs = (if xs = [] then NaN else Fin (sum_list xs))"

text \<open>\<^verbatim>\<open>pivot_table(values="Sales", index="Month", columns="Year", aggfunc="sum")\<close>: a cell
  without a row of its month and year is missing.\<close>

definition pivot_table :: "((int \<times> int) \<times> rat) list \<Rightarrow> pivot" where
  "pivot_table ydf =
     (let months = sort (remdups (map (snd \<circ> fst) ydf));
          ys = sort (remdups (map (fst \<circ> fst) ydf))
      in \<lparr>index = months,
          data = map (\<lambda>y. (YearL y,
                   map (\<lambda>m. agg_sum (map snd (filter (\<lambda>r. fst r = (y, m)) ydf))) months)) ys\<rparr>)"

definition growth_label :: label where
  "growth_label = NameL ''YoY_Growth_%''"

definition year_labels :: "label list \<Rightarrow> int list" where
  "year_labels ls = concat (map (\<lambda>l. case l of YearL y \<Rightarrow> [y] | NameL _ \<Rightarrow> []) ls)"

definition yoy_pivot :: "((int \<times> int) \<times> rat) list \<Rightarrow> pivot" where
  "yoy_pivot ydf =
     (let pivot = pivot_table ydf;
          years = sort (year_labels (columns_of pivot))
      in if length years \<ge> 2
         then setitem_pivot pivot growth_label
                (map (\<lambda>q. fmul q (Fin 100))
                   (map2 fdiv
                      (map2 fsub (getitem pivot (YearL (last years)))
                         (getitem pivot (YearL (years ! (length years - 2)))))
                      (getitem pivot (YearL (years ! (length years - 2))))))
         else setitem_pivot pivot growth_label (replicate (length (index pivot)) NaN))"

subsection \<open>The growth chart and the text report\<close>

text \<open>\<^verbatim>\<open>plot_yoy_growth\<close> returns at once when the table has no growth column; otherwise
  it draws the bar chart of the column over the months and saves it under the path.
  The result is the chart saved, if any.\<close>

record figure =
  saved_as :: string
  title :: string
  x_values :: "int list"
  y_values :: "fval list"

definition plot_yoy_growth :: "pivot \<Rightarrow> string \<Rightarrow> figure option" where
  "plot_yoy_growth pivot_df path =
     (if growth_label \<notin> set (columns_of pivot_df) then None
      else Some \<lparr>saved_as = path, title = ''Year-over-Year Monthly Growth (%)'',
                  x_values = index pivot_df, y_values = getitem pivot_df growth_label\<rparr>)"

text \<open>The mean of a float column skips the missing values.\<close>

definition fmean :: "fval list \<Rightarrow> fval" where
  "fmean col =
     (let xs = filter (\<lambda>v. v \<noteq> NaN) col
      in if xs = [] then NaN else fdiv (foldr fadd xs (Fin 0)) (Fin (of_nat (length xs))))"

fun fless :: "fval \<Rightarrow> fval \<Rightarrow> bool" where
  "fless (Fin a) (Fin b) = (a < b)"
| "fless MInf (Fin b) = True"
| "fless MInf PInf = True"
| "fless (Fin a) PInf = True"
| "fless _ _ = False"

text \<open>\<^verbatim>\<open>idxmax()\<close> and \<^verbatim>\<open>idxmin()\<close>: the month of the first largest (smallest) value that is
  not missing. A column without such a value has none: there pandas raises (or returns a
  missing label, which the lookup \<^verbatim>\<open>.loc\<close> that follows rejects).\<close>

definition idxmax :: "int list \<Rightarrow> fval list \<Rightarrow> int option" where
  "idxmax idx col =
     (case filter (\<lambda>p. snd p \<noteq> NaN) (zip idx col) of
        [] \<Rightarrow> None
      | p # ps \<Rightarrow> Some (fst (foldl (\<lambda>b q. if fless (snd b) (snd q) then q else b) p ps)))"

definition idxmin :: "int list \<Rightarrow> fval list \<Rightarrow> int option" where
  "idxmin idx col =
     (case filter (\<lambda>p. snd p \<noteq> NaN) (zip idx col) of
        [] \<Rightarrow> None
      | p # ps \<Rightarrow> Some (fst (foldl (\<lambda>b q. if fless (snd q) (snd b) then q else b) p ps)))"

definition loc :: "pivot \<Rightarrow> int \<Rightarrow> label \<Rightarrow> fval" where
  "loc p m l = (case map_of (zip (index p) (getitem p l)) m of Some v \<Rightarrow> v | None \<Rightarrow> NaN)"

text \<open>A line of the report is a sequence of pieces; a number is kept as a number, its
  printed form (\<^verbatim>\<open>:,.2f\<close>) is outside the model.\<close>

datatype piece = Text string | Blank_Line | Money "rat option" | Count nat | Percent fval | Month_No int

datatype report_error = No_Valid_Growth

definition generate_insights ::
  "kpis \<Rightarrow> (string \<times> rat) list \<Rightarrow> (string \<times> rat) list \<Rightarrow> pivot \<Rightarrow>
   report_error + piece list list" where
  "generate_insights k region_df top_customers_df yoy_df =
     (let insights =
            [[Text ''INSIGHTS SUMMARY''],
             [Text ''--------------------------------------------------''],
             [Text ''Total Revenue: $'', Money (Some (Total_Sales k))],
             [Text ''Total Orders: '', Count (Total_Orders k)],
             [Text ''Unique Customers: '', Count (Unique_Customers k)],
             [Text ''Average Order Value: $'', Money (Average_Order_Value k)]];
          insights = insights @
            (case region_df of [] \<Rightarrow> []
             | r # _ \<Rightarrow> [[Blank_Line, Text ''Top Region: '', Text (fst r), Text '' ($'',
                          Money (Some (snd r)), Text '')'']]);
          insights = insights @
            (case top_customers_df of [] \<Rightarrow> []
             | c # _ \<Rightarrow> [[Text ''Top Customer: '', Text (fst c), Text '' ($'',
                          Money (Some (snd c)), Text '')'']]);
          recommended =
            [[Blank_Line, Text ''Recommended Actions:''],
             [Text ''1. Strengthen marketing in high-performing regions.''],
             [Text ''2. Expand loyalty programs for top customers.''],
             [Text ''3. Investigate weak YoY months for operational improvement.''],
             [Text ''4. Analyze product categories to refine performance strategy.'']]
      in if growth_label \<in> set (columns_of yoy_df)
         then (let growth = getitem yoy_df growth_label;
                   overview =
                     [[Blank_Line, Text ''Year-over-Year Overview:''],
                      [Text ''Average YoY Growth: '', Percent (fmean growth), Text ''%'']]
               in case idxmax (index yoy_df) growth of
                    None \<Rightarrow> Inl No_Valid_Growth
                  | Some best_month \<Rightarrow>
                     (case idxmin (index yoy_df) growth of
                        None \<Rightarrow> Inl No_Valid_Growth
                      | Some worst_month \<Rightarrow>
                          Inr (insights @ overview @
                            [[Text ''Strongest YoY Month: '', Month_No best_month, Text '' ('',
                              Percent (loc yoy_df best_month growth_label), Text ''%)''],
                             [Text ''Weakest YoY Month: '', Month_No worst_month, Text '' ('',
                              Percent (loc yoy_df worst_month growth_label), Text ''%)'']]
                            @ recommended)))
         else Inr (insights @ recommended))"

subsection \<open>\<^verbatim>\<open>load_data\<close>\<close>

text \<open>A table as \<^verbatim>\<open>read_csv\<close> returns it: the column names and the rows under them.
  Reading the file is the parameter \<open>read_csv\<close>: under an encoding it returns a table, or
  raises \<^verbatim>\<open>UnicodeDecodeError\<close>, or raises something else (no such file, a line that
  does not parse).\<close>

record 'b csv_table =
  columns :: "string list"
  body :: 'b

datatype ('e, 'b) attempt = Parsed "'b csv_table" | UnicodeDecodeError | Raises 'e

datatype 'e load_error = ValueError string | Uncaught 'e

definition isspace :: "char \<Rightarrow> bool" where
  "isspace c = ((of_char c :: nat) \<in> {9, 10, 11, 12, 13, 28, 29, 30, 31, 32, 133, 160})"

definition strip :: "string \<Rightarrow> string" where
  "strip s = rev (dropWhile isspace (rev (dropWhile isspace s)))"

definition encodings :: "string list" where
  "encodings = [''utf-8'', ''latin1'', ''cp1252'']"

text \<open>The loop over the encodings. The result is what the function prints, line by line,
  and what it returns or raises.\<close>

fun try_encodings ::
  "(string \<Rightarrow> string \<Rightarrow> ('e, 'b) attempt) \<Rightarrow> string \<Rightarrow> string list \<Rightarrow>
   string list \<times> ('e load_error + 'b csv_table)" where
  "try_encodings read_csv path [] =
     ([], Inl (ValueError ''Unable to read the CSV. Try re-saving as UTF-8.''))"
| "try_encodings read_csv path (enc # encs) =
     (case read_csv path enc of
        Parsed df \<Rightarrow>
          ([''File loaded using encoding: '' @ enc],
           Inr (df\<lparr>columns := map strip (columns df)\<rparr>))
      | UnicodeDecodeError \<Rightarrow>
          (let (printed, res) = try_encodings read_csv path encs
           in ((''Encoding failed: '' @ enc @ ''. Trying next...'') # printed, res))
      | Raises e \<Rightarrow> ([], Inl (Uncaught e)))"

definition load_data ::
  "(string \<Rightarrow> string \<Rightarrow> ('e, 'b) attempt) \<Rightarrow> string \<Rightarrow>
   string list \<times> ('e load_error + 'b csv_table)" where
  "load_data read_csv path = try_encodings read_csv path encodings"

subsection \<open>Example inputs\<close>

text \<open>Parsers for the examples: a number is a numeric cell or a string of decimal digits, a
  date is a string \<^verbatim>\<open>YYYY-MM-DD\<close>. The general theorems hold for every parser.\<close>

definition digit_value :: "char \<Rightarrow> nat option" where
  "digit_value c =
     (let n = (of_char c :: nat) in if 48 \<le> n \<and> n \<le> 57 then Some (n - 48) else None)"

fun digits_value :: "nat \<Rightarrow> string \<Rightarrow> nat option" where
  "digits_value acc [] = Some acc"
| "digits_value acc (c # cs) =
     (case digit_value c of None \<Rightarrow> None | Some d \<Rightarrow> digits_value (10 * acc + d) cs)"

definition example_number :: "cell \<Rightarrow> rat option" where
  "example_number c =
     (case c of
        Num x \<Rightarrow> Some x
      | Str s \<Rightarrow> (if s = [] then None else map_option of_nat (digits_value 0 s))
      | _ \<Rightarrow> None)"

definition example_date :: "cell list \<Rightarrow> cell \<Rightarrow> timestamp option" where
  "example_date col c =
     (case c of
        Str [y1, y2, y3, y4, d1, m1, m2, d2, n1, n2] \<Rightarrow>
          (if d1 = CHR ''-'' \<and> d2 = CHR ''-'' then
             (case (digits_value 0 [y1, y2, y3, y4], digits_value 0 [m1, m2],
                    digits_value 0 [n1, n2]) of
                (Some y, Some m, Some d) \<Rightarrow>
                  Some \<lparr>year = int y, month = int m, day = int d, clock = 0\<rparr>
              | _ \<Rightarrow> None)
           else None)
      | _ \<Rightarrow> None)"

definition raw_row :: "string \<Rightarrow> string \<Rightarrow> string \<Rightarrow> string \<Rightarrow> string \<Rightarrow> unit row" where
  "raw_row date amount region cid cname =
     \<lparr>Order_Date = Str date, Sales = Str amount, Region = Some region,
      Customer_ID = Some cid, Customer_Name = Some cname,
      Year = None, Month = None, Order_Month = None, other = ()\<rparr>"

text \<open>Two years, and one amount that is not a number.\<close>

definition two_years :: "unit frame" where
  "two_years =
     [raw_row ''2023-01-05'' ''100'' ''East'' ''C1'' ''Alice'',
      raw_row ''2023-01-06'' ''bad'' ''East'' ''C2'' ''Bob'',
      raw_row ''2024-01-05'' ''300'' ''East'' ''C1'' ''Alice'']"

text \<open>One year only.\<close>

definition one_year :: "unit frame" where
  "one_year =
     [raw_row ''2023-01-05'' ''100'' ''East'' ''C1'' ''Alice'',
      raw_row ''2023-02-07'' ''50'' ''West'' ''C2'' ''Bob'']"

text \<open>A month without revenue in the earlier year.\<close>

definition zero_prior :: "unit frame" where
  "zero_prior =
     [raw_row ''2023-01-05'' ''0'' ''East'' ''C1'' ''Alice'',
      raw_row ''2024-01-05'' ''100'' ''East'' ''C1'' ''Alice'']"

text \<open>One row with a date and one without.\<close>

definition partly_dated :: "unit frame" where
  "partly_dated =
     [raw_row ''2023-01-05'' ''100'' ''East'' ''C1'' ''Alice'',
      raw_row ''soon'' ''7'' ''East'' ''C1'' ''Alice'']"

text \<open>A date that does not parse; the same row twice.\<close>

definition undated :: "unit frame" where
  "undated = [raw_row ''soon'' ''100'' ''East'' ''C1'' ''Alice'']"

definition twice :: "unit frame" where
  "twice =
     [raw_row ''2023-01-05'' ''100'' ''East'' ''C1'' ''Alice'',
      raw_row ''2023-01-05'' ''100'' ''East'' ''C1'' ''Alice'']"

text \<open>Two regions with the same revenue; three customers.\<close>

definition level :: "unit frame" where
  "level =
     [raw_row ''2023-01-05'' ''100'' ''East'' ''C1'' ''Alice'',
      raw_row ''2023-01-06'' ''100'' ''West'' ''C2'' ''Bob'',
      raw_row ''2023-01-07'' ''40'' ''North'' ''C3'' ''Carol'']"

text \<open>Readers: a file that is not there; a file that decodes as latin1 only.\<close>

datatype os_error = FileNotFoundError

definition no_file :: "string \<Rightarrow> string \<Rightarrow> (os_error, unit) attempt" where
  "no_file path enc = Raises FileNotFoundError"

definition latin1_file :: "string \<Rightarrow> string \<Rightarrow> (os_error, unit) attempt" where
  "latin1_file path enc =
     (if enc = ''utf-8'' then UnicodeDecodeError
      else Parsed \<lparr>columns = ['' Order_Date'', ''Sales '', ''Region''], body = ()\<rparr>)"

definition undecodable :: "string \<Rightarrow> string \<Rightarrow> (os_error, unit) attempt" where
  "undecodable path enc = UnicodeDecodeError"

section \<open>Properties\<close>

subsection \<open>The cleaner\<close>

lemma map2_same: "map2 f xs (map g xs) = map (\<lambda>x. f x (g x)) xs"
  by (induction xs) simp_all

lemma filter_coerced:
  "filter (\<lambda>r. Sales r \<noteq> Null)
     (map (\<lambda>r. r\<lparr>Sales := (case pn (Sales r) of Some x \<Rightarrow> Num x | None \<Rightarrow> Null)\<rparr>) t)
   = map (\<lambda>r. r\<lparr>Sales := (case pn (Sales r) of Some x \<Rightarrow> Num x | None \<Rightarrow> Null)\<rparr>)
       (kept_rows pn t)"
  by (induction t) (auto simp: kept_rows_def split: option.splits)

text \<open>The store after the call: the caller's objects as they were, then the copy with its
  amounts parsed, the table of the kept rows with the derived columns, and the result.\<close>

lemma clean_data_result:
  assumes "df < length h"
  shows "clean_data na pn pd df h =
    (Suc (Suc (length h)),
     h @ [map (\<lambda>r. r\<lparr>Sales := (case pn (Sales r) of Some x \<Rightarrow> Num x | None \<Rightarrow> Null)\<rparr>) (h ! df),
          map (clean_row na pn pd (map Order_Date (kept_rows pn (h ! df)))) (kept_rows pn (h ! df)),
          drop_duplicates
            (map (clean_row na pn pd (map Order_Date (kept_rows pn (h ! df)))) (kept_rows pn (h ! df)))])"
  using assms
  apply (simp add: clean_data_def new_frame_def setitem_def Let_def to_numeric_def to_datetime_def
      dt_year_def dt_month_def dt_to_period_M_astype_str_def dropna_Sales_def
      nth_append map2_same filter_coerced o_def)
  apply (auto simp: clean_row_def split: option.splits intro!: arg_cong[where f=drop_duplicates])
  done

lemma cleaned_eq:
  "cleaned na pn pd t =
     drop_duplicates (map (clean_row na pn pd (map Order_Date (kept_rows pn t))) (kept_rows pn t))"
  by (simp add: cleaned_def clean_data_result)

lemma set_drop_duplicates: "set (drop_duplicates xs) = set xs"
  by (induction xs rule: drop_duplicates.induct) auto

lemma distinct_drop_duplicates: "distinct (drop_duplicates xs)"
  by (induction xs rule: drop_duplicates.induct) (auto simp: set_drop_duplicates)

lemma length_drop_duplicates: "length (drop_duplicates xs) \<le> length xs"
proof (induction xs rule: drop_duplicates.induct)
  case 1
  show ?case by simp
next
  case (2 r rs)
  have "length (filter (\<lambda>s. s \<noteq> r) rs) \<le> length rs" by simp
  with 2 have "length (drop_duplicates (filter (\<lambda>s. s \<noteq> r) rs)) \<le> length rs"
    by (rule le_trans)
  then show ?case by simp
qed

lemma count_list_distinct: "distinct xs \<Longrightarrow> x \<in> set xs \<Longrightarrow> count_list xs x = 1"
  by (induction xs) auto

lemma count_drop_duplicates: "x \<in> set xs \<Longrightarrow> count_list (drop_duplicates xs) x = 1"
  by (simp add: count_list_distinct distinct_drop_duplicates set_drop_duplicates)

lemma set_cleaned:
  "set (cleaned na pn pd t) =
     clean_row na pn pd (map Order_Date (kept_rows pn t)) ` set (kept_rows pn t)"
  by (simp add: cleaned_eq set_drop_duplicates)

lemma clean_row_Sales:
  "pn (Sales r) \<noteq> None \<Longrightarrow> Sales (clean_row na pn pd ds r) = Num (the (pn (Sales r)))"
  by (auto simp: clean_row_def split: option.splits)

lemma clean_row_undated:
  "Order_Date (clean_row na pn pd ds r) = Null \<Longrightarrow>
     Year (clean_row na pn pd ds r) = None \<and> Month (clean_row na pn pd ds r) = None \<and>
     Order_Month (clean_row na pn pd ds r) = na"
  by (simp add: clean_row_def split: option.splits)

lemma clean_row_dated:
  "Order_Date (clean_row na pn pd ds r) = Stamp t \<Longrightarrow>
     Year (clean_row na pn pd ds r) = Some (year t) \<and> Month (clean_row na pn pd ds r) = Some (month t) \<and>
     Order_Month (clean_row na pn pd ds r) = Some (period_str (year t) (month t))"
  by (auto simp: clean_row_def split: option.splits)

lemma clean_row_Order_Date:
  "Order_Date (clean_row na pn pd ds r) = Null \<or> (\<exists>t. Order_Date (clean_row na pn pd ds r) = Stamp t)"
  by (simp add: clean_row_def split: option.splits)

lemma clean_row_untouched:
  "Region (clean_row na pn pd ds r) = Region r \<and> Customer_ID (clean_row na pn pd ds r) = Customer_ID r \<and>
   Customer_Name (clean_row na pn pd ds r) = Customer_Name r \<and> other (clean_row na pn pd ds r) = other r"
  by (simp add: clean_row_def split: option.splits)

subsection \<open>The example tables, cleaned\<close>

lemma cleaned_two_years:
  "cleaned na example_number example_date two_years =
    [\<lparr>Order_Date = Stamp \<lparr>year = 2023, month = 1, day = 5, clock = 0\<rparr>,
      Sales = Num 100, Region = Some ''East'', Customer_ID = Some ''C1'',
      Customer_Name = Some ''Alice'', Year = Some 2023, Month = Some 1,
      Order_Month = Some ''2023-01'', other = ()\<rparr>,
     \<lparr>Order_Date = Stamp \<lparr>year = 2024, month = 1, day = 5, clock = 0\<rparr>,
      Sales = Num 300, Region = Some ''East'', Customer_ID = Some ''C1'',
      Customer_Name = Some ''Alice'', Year = Some 2024, Month = Some 1,
      Order_Month = Some ''2024-01'', other = ()\<rparr>]"
  by (simp add: cleaned_eq kept_rows_def two_years_def clean_row_def raw_row_def
      example_number_def example_date_def digit_value_def period_str_def digit_def)

lemma cleaned_one_year:
  "cleaned na example_number example_date one_year =
    [\<lparr>Order_Date = Stamp \<lparr>year = 2023, month = 1, day = 5, clock = 0\<rparr>,
      Sales = Num 100, Region = Some ''East'', Customer_ID = Some ''C1'',
      Customer_Name = Some ''Alice'', Year = Some 2023, Month = Some 1,
      Order_Month = Some ''2023-01'', other = ()\<rparr>,
     \<lparr>Order_Date = Stamp \<lparr>year = 2023, month = 2, day = 7, clock = 0\<rparr>,
      Sales = Num 50, Region = Some ''West'', Customer_ID = Some ''C2'',
      Customer_Name = Some ''Bob'', Year = Some 2023, Month = Some 2,
      Order_Month = Some ''2023-02'', other = ()\<rparr>]"
  by (simp add: cleaned_eq kept_rows_def one_year_def clean_row_def raw_row_def
      example_number_def example_date_def digit_value_def period_str_def digit_def)

lemma cleaned_zero_prior:
  "cleaned na example_number example_date zero_prior =
    [\<lparr>Order_Date = Stamp \<lparr>year = 2023, month = 1, day = 5, clock = 0\<rparr>,
      Sales = Num 0, Region = Some ''East'', Customer_ID = Some ''C1'',
      Customer_Name = Some ''Alice'', Year = Some 2023, Month = Some 1,
      Order_Month = Some ''2023-01'', other = ()\<rparr>,
     \<lparr>Order_Date = Stamp \<lparr>year = 2024, month = 1, day = 5, clock = 0\<rparr>,
      Sales = Num 100, Region = Some ''East'', Customer_ID = Some ''C1'',
      Customer_Name = Some ''Alice'', Year = Some 2024, Month = Some 1,
      Order_Month = Some ''2024-01'', other = ()\<rparr>]"
  by (simp add: cleaned_eq kept_rows_def zero_prior_def clean_row_def raw_row_def
      example_number_def example_date_def digit_value_def period_str_def digit_def)

lemma cleaned_undated:
  "cleaned na example_number example_date undated =
    [\<lparr>Order_Date = Null, Sales = Num 100, Region = Some ''East'', Customer_ID = Some ''C1'',
      Customer_Name = Some ''Alice'', Year = None, Month = None,
      Order_Month = na, other = ()\<rparr>]"
  by (simp add: cleaned_eq kept_rows_def undated_def clean_row_def raw_row_def
      example_number_def example_date_def digit_value_def)

lemma cleaned_twice:
  "cleaned na example_number example_date twice =
    [\<lparr>Order_Date = Stamp \<lparr>year = 2023, month = 1, day = 5, clock = 0\<rparr>,
      Sales = Num 100, Region = Some ''East'', Customer_ID = Some ''C1'',
      Customer_Name = Some ''Alice'', Year = Some 2023, Month = Some 1,
      Order_Month = Some ''2023-01'', other = ()\<rparr>]"
  by (simp add: cleaned_eq kept_rows_def twice_def clean_row_def raw_row_def
      example_number_def example_date_def digit_value_def period_str_def digit_def)

lemma cleaned_level:
  "cleaned na example_number example_date level =
    [\<lparr>Order_Date = Stamp \<lparr>year = 2023, month = 1, day = 5, clock = 0\<rparr>,
      Sales = Num 100, Region = Some ''East'', Customer_ID = Some ''C1'',
      Customer_Name = Some ''Alice'', Year = Some 2023, Month = Some 1,
      Order_Month = Some ''2023-01'', other = ()\<rparr>,
     \<lparr>Order_Date = Stamp \<lparr>year = 2023, month = 1, day = 6, clock = 0\<rparr>,
      Sales = Num 100, Region = Some ''West'', Customer_ID = Some ''C2'',
      Customer_Name = Some ''Bob'', Year = Some 2023, Month = Some 1,
      Order_Month = Some ''2023-01'', other = ()\<rparr>,
     \<lparr>Order_Date = Stamp \<lparr>year = 2023, month = 1, day = 7, clock = 0\<rparr>,
      Sales = Num 40, Region = Some ''North'', Customer_ID = Some ''C3'',
      Customer_Name = Some ''Carol'', Year = Some 2023, Month = Some 1,
      Order_Month = Some ''2023-01'', other = ()\<rparr>]"
  by (simp add: cleaned_eq kept_rows_def level_def clean_row_def raw_row_def
      example_number_def example_date_def digit_value_def period_str_def digit_def)

lemma cleaned_partly_dated:
  "cleaned na example_number example_date partly_dated =
    [\<lparr>Order_Date = Stamp \<lparr>year = 2023, month = 1, day = 5, clock = 0\<rparr>,
      Sales = Num 100, Region = Some ''East'', Customer_ID = Some ''C1'',
      Customer_Name = Some ''Alice'', Year = Some 2023, Month = Some 1,
      Order_Month = Some ''2023-01'', other = ()\<rparr>,
     \<lparr>Order_Date = Null, Sales = Num 7, Region = Some ''East'', Customer_ID = Some ''C1'',
      Customer_Name = Some ''Alice'', Year = None, Month = None,
      Order_Month = na, other = ()\<rparr>]"
  by (simp add: cleaned_eq kept_rows_def partly_dated_def clean_row_def raw_row_def
      example_number_def example_date_def digit_value_def period_str_def digit_def)

subsection \<open>What \<^verbatim>\<open>clean_data\<close> keeps and drops\<close>

text \<open>
  C3, as amended. The claim reads: \<^verbatim>\<open>clean_data\<close> drops exactly the rows whose sales amount
  fails numeric parsing, keeps the rows whose date fails to parse, every kept row has a
  numeric amount, and an unparseable date yields null in all three derived columns.
  On the code the rows of the result are the cleaned forms of exactly the rows whose amount
  parses, but each of them once: \<^verbatim>\<open>drop_duplicates\<close> drops the repetitions of a kept row
  too. The rest holds: a row is kept whether or not its date parses, the amount of every
  kept row is a number, and for an unparseable date the date, \<^verbatim>\<open>Year\<close> and \<^verbatim>\<open>Month\<close> are
  null. The year-month key of such a row is what \<^verbatim>\<open>astype(str)\<close> makes of a missing period
  (\<open>na\<close>): null under pandas 3, as the claim says.
\<close>

theorem clean_data_rows:
  "set (cleaned na pn pd t) =
     clean_row na pn pd (map Order_Date (kept_rows pn t)) ` {r \<in> set t. pn (Sales r) \<noteq> None}
   \<and> distinct (cleaned na pn pd t)
   \<and> (\<forall>r \<in> set (cleaned na pn pd t). \<exists>x. Sales r = Num x)
   \<and> (\<forall>r \<in> set (cleaned na pn pd t). Order_Date r = Null \<longrightarrow>
         Year r = None \<and> Month r = None \<and> Order_Month r = na)
   \<and> (\<forall>r \<in> set t. pn (Sales r) \<noteq> None \<longrightarrow>
         pd (map Order_Date (kept_rows pn t)) (Order_Date r) = None \<longrightarrow>
         (\<exists>r' \<in> set (cleaned na pn pd t). Order_Date r' = Null \<and> Region r' = Region r \<and>
            Customer_ID r' = Customer_ID r \<and> Customer_Name r' = Customer_Name r \<and>
            other r' = other r))"
proof -
  let ?ds = "map Order_Date (kept_rows pn t)"
  have kept: "set (kept_rows pn t) = {r \<in> set t. pn (Sales r) \<noteq> None}"
    by (simp add: kept_rows_def)
  have rows: "set (cleaned na pn pd t) = clean_row na pn pd ?ds ` {r \<in> set t. pn (Sales r) \<noteq> None}"
    by (simp add: set_cleaned kept)
  have dist: "distinct (cleaned na pn pd t)"
    by (simp add: cleaned_eq distinct_drop_duplicates)
  have num: "\<forall>r \<in> set (cleaned na pn pd t). \<exists>x. Sales r = Num x"
    unfolding rows by (auto simp: clean_row_Sales)
  have undated: "\<forall>r \<in> set (cleaned na pn pd t). Order_Date r = Null \<longrightarrow>
         Year r = None \<and> Month r = None \<and> Order_Month r = na"
    unfolding rows by (auto dest!: clean_row_undated)
  have stays: "\<exists>r' \<in> set (cleaned na pn pd t). Order_Date r' = Null \<and> Region r' = Region r \<and>
            Customer_ID r' = Customer_ID r \<and> Customer_Name r' = Customer_Name r \<and>
            other r' = other r"
    if "r \<in> set t" "pn (Sales r) \<noteq> None" "pd ?ds (Order_Date r) = None" for r
  proof -
    have "clean_row na pn pd ?ds r \<in> set (cleaned na pn pd t)"
      using that rows by blast
    moreover have "Order_Date (clean_row na pn pd ?ds r) = Null"
      using that by (simp add: clean_row_def)
    ultimately show ?thesis
      using clean_row_untouched by blast
  qed
  from rows dist num undated stays show ?thesis by blast
qed

theorem clean_data_rows_witness:
  "(\<exists>x. Sales (hd (cleaned astype_str_pandas3 example_number example_date undated)) = Num x)
   \<and> Year (hd (cleaned astype_str_pandas3 example_number example_date undated)) = None
   \<and> Month (hd (cleaned astype_str_pandas3 example_number example_date undated)) = None
   \<and> Order_Month (hd (cleaned astype_str_pandas3 example_number example_date undated)) = None"
  using clean_data_rows [of astype_str_pandas3 example_number example_date undated]
  by (simp add: cleaned_undated astype_str_pandas3_def)

text \<open>A table that holds a row twice: no amount fails to parse, and a row is dropped.\<close>

theorem clean_data_rows_counterexample:
  "kept_rows example_number twice = twice
   \<and> length (cleaned astype_str_pandas2 example_number example_date twice) < length twice
   \<and> length (cleaned astype_str_pandas3 example_number example_date twice) < length twice"
proof -
  have "kept_rows example_number twice = twice"
    by (simp add: kept_rows_def twice_def raw_row_def example_number_def digit_value_def)
  moreover have "length (cleaned na example_number example_date twice) = 1" for na
    by (simp add: cleaned_twice)
  moreover have "length twice = 2"
    by (simp add: twice_def)
  ultimately show ?thesis
    by simp
qed

subsection \<open>Duplicates\<close>

text \<open>
  C9. Duplicate removal is the last step of \<^verbatim>\<open>clean_data\<close>: it runs on the table of the kept
  rows after the derived columns are set. No two rows of the result agree on every column,
  and each row of that table, however often it occurs there, occurs in the result exactly
  once.
\<close>

theorem duplicates_removed_last:
  "cleaned na pn pd t =
     drop_duplicates (map (clean_row na pn pd (map Order_Date (kept_rows pn t))) (kept_rows pn t))
   \<and> distinct (cleaned na pn pd t)
   \<and> (\<forall>r \<in> set (kept_rows pn t).
        count_list (cleaned na pn pd t) (clean_row na pn pd (map Order_Date (kept_rows pn t)) r) = 1)"
proof -
  have "count_list (cleaned na pn pd t) (clean_row na pn pd (map Order_Date (kept_rows pn t)) r) = 1"
    if "r \<in> set (kept_rows pn t)" for r
    unfolding cleaned_eq using that by (intro count_drop_duplicates) simp
  then show ?thesis
    by (simp add: cleaned_eq [symmetric]) (simp add: cleaned_eq distinct_drop_duplicates)
qed

theorem duplicates_removed_last_witness:
  "raw_row ''2023-01-05'' ''100'' ''East'' ''C1'' ''Alice'' \<in> set (kept_rows example_number twice)
   \<and> length (kept_rows example_number twice) = 2
   \<and> count_list (cleaned astype_str_pandas2 example_number example_date twice)
       (clean_row astype_str_pandas2 example_number example_date
          (map Order_Date (kept_rows example_number twice))
          (raw_row ''2023-01-05'' ''100'' ''East'' ''C1'' ''Alice'')) = 1
   \<and> count_list (cleaned astype_str_pandas3 example_number example_date twice)
       (clean_row astype_str_pandas3 example_number example_date
          (map Order_Date (kept_rows example_number twice))
          (raw_row ''2023-01-05'' ''100'' ''East'' ''C1'' ''Alice'')) = 1"
proof -
  have k: "kept_rows example_number twice = twice"
    by (simp add: kept_rows_def twice_def raw_row_def example_number_def digit_value_def)
  have m: "raw_row ''2023-01-05'' ''100'' ''East'' ''C1'' ''Alice'' \<in> set (kept_rows example_number twice)"
    unfolding k by (simp add: twice_def)
  have l: "length (kept_rows example_number twice) = 2"
    unfolding k by (simp add: twice_def)
  from duplicates_removed_last [of astype_str_pandas2 example_number example_date twice]
  have 2: "\<forall>r \<in> set (kept_rows example_number twice).
          count_list (cleaned astype_str_pandas2 example_number example_date twice)
            (clean_row astype_str_pandas2 example_number example_date
               (map Order_Date (kept_rows example_number twice)) r) = 1"
    by blast
  from duplicates_removed_last [of astype_str_pandas3 example_number example_date twice]
  have 3: "\<forall>r \<in> set (kept_rows example_number twice).
          count_list (cleaned astype_str_pandas3 example_number example_date twice)
            (clean_row astype_str_pandas3 example_number example_date
               (map Order_Date (kept_rows example_number twice)) r) = 1"
    by blast
  from m l 2 3 show ?thesis by blast
qed

subsection \<open>The caller's table\<close>

text \<open>
  C10. \<^verbatim>\<open>clean_data\<close> does not change its argument. The function assigns columns in place,
  but only to the copy it makes first and to the table \<^verbatim>\<open>dropna\<close> returns: after the call
  every object the caller had, the argument among them, is what it was, and the result is
  a new object.
\<close>

theorem clean_data_leaves_argument:
  assumes "df < length h"
  shows "case clean_data na pn pd df h of
           (res, h') \<Rightarrow>
             h' ! df = h ! df
             \<and> (\<forall>a < length h. h' ! a = h ! a)
             \<and> length h \<le> res \<and> res < length h'
             \<and> h' ! res = cleaned na pn pd (h ! df)"
  using assms by (simp add: clean_data_result nth_append cleaned_eq)

theorem clean_data_leaves_argument_witness:
  "snd (clean_data astype_str_pandas2 example_number example_date 0 [two_years]) ! 0 = two_years
   \<and> fst (clean_data astype_str_pandas2 example_number example_date 0 [two_years]) \<noteq> 0
   \<and> snd (clean_data astype_str_pandas3 example_number example_date 0 [two_years]) ! 0 = two_years
   \<and> fst (clean_data astype_str_pandas3 example_number example_date 0 [two_years]) \<noteq> 0"
  using
    clean_data_leaves_argument [of 0 "[two_years]" astype_str_pandas2 example_number example_date]
    clean_data_leaves_argument [of 0 "[two_years]" astype_str_pandas3 example_number example_date]
  by (auto split: prod.splits)

subsection \<open>Grouped sums\<close>

lemma set_map_filter: "set (List.map_filter f xs) = {y. \<exists>x \<in> set xs. f x = Some y}"
  by (induction xs) (auto simp: List.map_filter_simps split: option.splits)

lemma keys_groupby_sum:
  "map fst (groupby_sum key df) = sort (remdups (List.map_filter key df))"
  by (simp add: groupby_sum_def o_def)

lemma sorted_groupby_sum: "sorted (map fst (groupby_sum key df))"
  by (simp add: keys_groupby_sum)

lemma distinct_keys_groupby_sum: "distinct (map fst (groupby_sum key df))"
  by (simp add: keys_groupby_sum)

lemma set_keys_groupby_sum:
  "set (map fst (groupby_sum key df)) = {k. \<exists>r \<in> set df. key r = Some k}"
  by (simp add: keys_groupby_sum set_map_filter)

lemma distinct_groupby_sum: "distinct (groupby_sum key df)"
  using distinct_keys_groupby_sum [of key df] by (simp add: distinct_map)

lemma groupby_sum_row:
  assumes "(k, s) \<in> set (groupby_sum key df)"
  shows "s = nansum (map (float_of \<circ> Sales) (filter (\<lambda>r. key r = Some k) df))"
    and "\<exists>r \<in> set df. key r = Some k"
proof -
  from assms show "s = nansum (map (float_of \<circ> Sales) (filter (\<lambda>r. key r = Some k) df))"
    by (auto simp: groupby_sum_def)
  from assms have "k \<in> set (map fst (groupby_sum key df))"
    by force
  then show "\<exists>r \<in> set df. key r = Some k"
    by (simp only: set_keys_groupby_sum mem_Collect_eq)
qed

lemma length_groupby_sum:
  "length (groupby_sum key df) = card {k. \<exists>r \<in> set df. key r = Some k}"
proof -
  have "length (groupby_sum key df) = length (map fst (groupby_sum key df))"
    by simp
  also have "\<dots> = card (set (map fst (groupby_sum key df)))"
    using distinct_keys_groupby_sum [of key df] by (simp only: distinct_card)
  finally show ?thesis
    by (simp only: set_keys_groupby_sum)
qed

text \<open>Sorting changes neither the rows nor their sum.\<close>

lemma sum_list_insort_key:
  "sum_list (map f (insort_key g x xs)) = f x + sum_list (map f xs)"
  for f :: "'r \<Rightarrow> rat"
  by (induction xs) simp_all

lemma sum_list_sort_key: "sum_list (map f (sort_key g xs)) = sum_list (map f xs)"
  for f :: "'r \<Rightarrow> rat"
  by (induction xs) (simp_all add: sum_list_insort_key)

lemma sort_values_groupby_sum: "sort_values fst (groupby_sum key df) = groupby_sum key df"
  unfolding sort_values_def by (rule sort_key_id_if_sorted) (rule sorted_groupby_sum)

text \<open>Whatever the rank of the rows of equal key, the keys come out in descending order.\<close>

lemma descending_sort_values_desc:
  "sorted_wrt (\<lambda>a b. a \<ge> b) (map col (sort_values_desc tie col rs))"
proof -
  let ?f = "\<lambda>r. (col r, tie r)"
  have "sorted (map ?f (sort_key ?f (rev rs)))"
    by (rule sorted_sort_key)
  then have "sorted_wrt (\<lambda>x y. ?f x \<le> ?f y) (sort_key ?f (rev rs))"
    by (simp only: sorted_map)
  then have "sorted_wrt (\<lambda>x y. col x \<le> col y) (sort_key ?f (rev rs))"
    by (rule sorted_wrt_mono_rel [rotated]) (auto simp: less_eq_prod_def)
  then have "sorted (map col (sort_key ?f (rev rs)))"
    by (simp only: sorted_map)
  then have "sorted_wrt (\<lambda>a b. a \<ge> b) (rev (map col (sort_key ?f (rev rs))))"
    by (simp add: sorted_wrt_rev)
  then show ?thesis
    by (simp add: sort_values_desc_def rev_map)
qed

lemma set_sort_values_desc: "set (sort_values_desc tie col rs) = set rs"
  by (simp add: sort_values_desc_def)

lemma length_sort_values_desc: "length (sort_values_desc tie col rs) = length rs"
  by (simp add: sort_values_desc_def)

lemma distinct_sort_values_desc: "distinct (sort_values_desc tie col rs) = distinct rs"
  by (simp add: sort_values_desc_def)

lemma distinct_keys_sort_values_desc:
  "distinct (map fst (sort_values_desc tie col (groupby_sum key df)))"
proof -
  let ?R = "sort_values_desc tie col (groupby_sum key df)"
  have "distinct ?R"
    by (simp add: distinct_sort_values_desc distinct_groupby_sum)
  moreover have "inj_on fst (set ?R)"
    unfolding set_sort_values_desc
    using distinct_keys_groupby_sum [of key df] distinct_groupby_sum [of key df]
    by (simp add: distinct_map)
  ultimately show ?thesis
    by (simp add: distinct_map)
qed

text \<open>A sum over the groups is the sum over the rows that have a key.\<close>

lemma sum_over_groups:
  fixes g :: "'r \<Rightarrow> rat"
  assumes "finite K" and "\<forall>r \<in> set df. \<exists>k \<in> K. key r = Some k"
  shows "(\<Sum>k \<in> K. sum_list (map g (filter (\<lambda>r. key r = Some k) df))) = sum_list (map g df)"
  using assms(2)
proof (induction df)
  case Nil
  show ?case by simp
next
  case (Cons r df)
  then obtain k0 where k0: "k0 \<in> K" "key r = Some k0"
    by auto
  have "(\<Sum>k \<in> K. sum_list (map g (filter (\<lambda>r. key r = Some k) (r # df)))) =
        (\<Sum>k \<in> K. (if k = k0 then g r else 0) + sum_list (map g (filter (\<lambda>r. key r = Some k) df)))"
    using k0 by (intro sum.cong) auto
  also have "\<dots> = (\<Sum>k \<in> K. if k = k0 then g r else 0) +
        (\<Sum>k \<in> K. sum_list (map g (filter (\<lambda>r. key r = Some k) df)))"
    by (rule sum.distrib)
  also have "(\<Sum>k \<in> K. if k = k0 then g r else 0) = g r"
    using assms(1) k0 by simp
  also have "(\<Sum>k \<in> K. sum_list (map g (filter (\<lambda>r. key r = Some k) df))) = sum_list (map g df)"
    using Cons by simp
  finally show ?case by simp
qed

lemma sum_groupby_sum:
  assumes "\<forall>r \<in> set df. key r \<noteq> None"
  shows "sum_list (map snd (groupby_sum key df)) = nansum (map (float_of \<circ> Sales) df)"
proof -
  let ?g = "\<lambda>r. case float_of (Sales r) of Some x \<Rightarrow> x | None \<Rightarrow> 0"
  let ?ks = "sort (remdups (List.map_filter key df))"
  have ns: "nansum (map (float_of \<circ> Sales) rs) = sum_list (map ?g rs)" for rs :: "'a row list"
    by (simp add: nansum_def o_def)
  have "sum_list (map snd (groupby_sum key df)) =
        sum_list (map (\<lambda>k. sum_list (map ?g (filter (\<lambda>r. key r = Some k) df))) ?ks)"
    by (simp add: groupby_sum_def o_def nansum_def)
  also have "\<dots> = (\<Sum>k \<in> set ?ks. sum_list (map ?g (filter (\<lambda>r. key r = Some k) df)))"
    by (rule sum_list_distinct_conv_sum_set) simp
  also have "\<dots> = sum_list (map ?g df)"
  proof (rule sum_over_groups)
    show "finite (set ?ks)" by simp
    show "\<forall>r \<in> set df. \<exists>k \<in> set ?ks. key r = Some k"
      using assms by (simp add: set_map_filter) blast
  qed
  finally show ?thesis
    by (simp add: ns)
qed

subsection \<open>The monthly trend\<close>

lemma cleaned_row_cases:
  assumes "r \<in> set (cleaned na pn pd t)"
  shows "(Order_Date r = Null \<and> Year r = None \<and> Month r = None \<and> Order_Month r = na)
       \<or> (\<exists>ts. Order_Date r = Stamp ts \<and> Year r = Some (year ts) \<and> Month r = Some (month ts)
              \<and> Order_Month r = Some (period_str (year ts) (month ts)))"
proof -
  from assms obtain r0 where "r = clean_row na pn pd (map Order_Date (kept_rows pn t)) r0"
    by (auto simp: set_cleaned)
  then show ?thesis
    by (simp add: clean_row_def split: option.splits)
qed

text \<open>Rows without a key are in no group.\<close>

lemma map_filter_with_key:
  "List.map_filter key (filter (\<lambda>r. key r \<noteq> None) df) = List.map_filter key df"
  by (induction df) (auto simp: List.map_filter_simps)

lemma filter_with_key:
  "filter (\<lambda>r. key r = Some k) (filter (\<lambda>r. key r \<noteq> None) df) =
     filter (\<lambda>r. key r = Some k) df"
  by (induction df) auto

lemma groupby_sum_with_key:
  "groupby_sum key (filter (\<lambda>r. key r \<noteq> None) df) = groupby_sum key df"
  by (simp only: groupby_sum_def map_filter_with_key filter_with_key)

lemma sum_groupby_sum_with_key:
  "sum_list (map snd (groupby_sum key df)) =
     nansum (map (float_of \<circ> Sales) (filter (\<lambda>r. key r \<noteq> None) df))"
proof -
  have "sum_list (map snd (groupby_sum key (filter (\<lambda>r. key r \<noteq> None) df))) =
      nansum (map (float_of \<circ> Sales) (filter (\<lambda>r. key r \<noteq> None) df))"
    by (rule sum_groupby_sum) simp
  then show ?thesis
    by (simp only: groupby_sum_with_key)
qed

text \<open>
  C5, as amended. The claim: the revenues of the monthly trend add up to the total revenue of
  the KPIs, exactly. On the code the revenues of the trend add up to the sales of the rows
  that have a year-month key, and \<^verbatim>\<open>groupby\<close> puts a row without a key in no group. So the
  two totals are equal whenever every row of the cleaned table has a key, as is the case
  when every date of a kept row parsed. A kept row without a date and without a key (the
  missing period stays missing under pandas 3) counts in the KPI total and in no month.
\<close>

theorem monthly_trend_total:
  "sum_list (map snd (monthly_trend (cleaned na pn pd t))) =
     nansum (map (float_of \<circ> Sales)
       (filter (\<lambda>r. Order_Month r \<noteq> None) (cleaned na pn pd t)))
   \<and> ((\<forall>r \<in> set (cleaned na pn pd t). Order_Month r \<noteq> None) \<longrightarrow>
        sum_list (map snd (monthly_trend (cleaned na pn pd t))) =
          Total_Sales (compute_kpis (cleaned na pn pd t)))
   \<and> ((\<forall>r \<in> set (cleaned na pn pd t). Order_Date r \<noteq> Null) \<longrightarrow>
        sum_list (map snd (monthly_trend (cleaned na pn pd t))) =
          Total_Sales (compute_kpis (cleaned na pn pd t)))"
proof -
  let ?c = "cleaned na pn pd t"
  have total: "sum_list (map snd (monthly_trend ?c)) =
      nansum (map (float_of \<circ> Sales) (filter (\<lambda>r. Order_Month r \<noteq> None) ?c))"
    by (simp only: monthly_trend_def sort_values_groupby_sum sum_groupby_sum_with_key)
  have keyed: "sum_list (map snd (monthly_trend ?c)) = Total_Sales (compute_kpis ?c)"
    if "\<forall>r \<in> set ?c. Order_Month r \<noteq> None"
  proof -
    from that have "filter (\<lambda>r. Order_Month r \<noteq> None) ?c = ?c"
      by (simp only: filter_id_conv)
    with total show ?thesis
      by (simp add: compute_kpis_def)
  qed
  have dated: "sum_list (map snd (monthly_trend ?c)) = Total_Sales (compute_kpis ?c)"
    if "\<forall>r \<in> set ?c. Order_Date r \<noteq> Null"
  proof (rule keyed, rule ballI)
    fix r
    assume r: "r \<in> set ?c"
    with that have "Order_Date r \<noteq> Null" by blast
    with cleaned_row_cases [OF r] show "Order_Month r \<noteq> None" by auto
  qed
  from total keyed dated show ?thesis by blast
qed

theorem monthly_trend_total_witness:
  "sum_list (map snd (monthly_trend (cleaned astype_str_pandas3 example_number example_date two_years)))
     = 400"
  using monthly_trend_total [of astype_str_pandas3 example_number example_date two_years]
  by (simp add: cleaned_two_years compute_kpis_def nansum_def float_of_def)

lemma monthly_trend_partly_dated:
  "monthly_trend (cleaned None example_number example_date partly_dated) = [(''2023-01'', 100)]"
  by (simp add: cleaned_partly_dated monthly_trend_def sort_values_def groupby_sum_def
      List.map_filter_simps nansum_def float_of_def)

text \<open>A sale of 100 with a date and a sale of 7 without, the missing period staying missing:
  the trend adds up to 100, the KPI total is 107.\<close>

theorem monthly_trend_total_counterexample:
  "sum_list (map snd (monthly_trend
       (cleaned astype_str_pandas3 example_number example_date partly_dated))) = 100
   \<and> Total_Sales (compute_kpis
       (cleaned astype_str_pandas3 example_number example_date partly_dated)) = 107"
  by (simp add: astype_str_pandas3_def monthly_trend_partly_dated)
    (simp add: cleaned_partly_dated compute_kpis_def nansum_def float_of_def)

subsection \<open>The keys of the monthly trend\<close>

text \<open>The keys are in ascending order, each once. They are the printed (year, month) pairs
  of the table and, if a kept row has no date, what \<^verbatim>\<open>astype(str)\<close> makes of the missing
  period, when that is a string.\<close>

lemma monthly_trend_keys:
  "sorted (map fst (monthly_trend (cleaned na pn pd t)))
   \<and> distinct (map fst (monthly_trend (cleaned na pn pd t)))
   \<and> set (map fst (monthly_trend (cleaned na pn pd t))) =
       (\<lambda>(y, m). period_str y m) `
          {(y, m). \<exists>r \<in> set (cleaned na pn pd t). Year r = Some y \<and> Month r = Some m}
       \<union> {k. na = Some k \<and> (\<exists>r \<in> set (cleaned na pn pd t). Order_Date r = Null)}"
proof -
  let ?c = "cleaned na pn pd t"
  let ?pairs = "{(y, m). \<exists>r \<in> set ?c. Year r = Some y \<and> Month r = Some m}"
  let ?nat = "{k. na = Some k \<and> (\<exists>r \<in> set ?c. Order_Date r = Null)}"
  have mt: "monthly_trend ?c = groupby_sum Order_Month ?c"
    by (simp add: monthly_trend_def sort_values_groupby_sum)
  have keys: "set (map fst (monthly_trend ?c)) = {k. \<exists>r \<in> set ?c. Order_Month r = Some k}"
    unfolding mt by (rule set_keys_groupby_sum)
  have "{k. \<exists>r \<in> set ?c. Order_Month r = Some k} = (\<lambda>(y, m). period_str y m) ` ?pairs \<union> ?nat"
  proof (intro set_eqI iffI)
    fix k
    assume "k \<in> {k. \<exists>r \<in> set ?c. Order_Month r = Some k}"
    then obtain r where r: "r \<in> set ?c" "Order_Month r = Some k"
      by blast
    from cleaned_row_cases [OF r(1)] show "k \<in> (\<lambda>(y, m). period_str y m) ` ?pairs \<union> ?nat"
    proof
      assume "Order_Date r = Null \<and> Year r = None \<and> Month r = None \<and> Order_Month r = na"
      with r have "k \<in> ?nat" by auto
      then show ?thesis by blast
    next
      assume "\<exists>ts. Order_Date r = Stamp ts \<and> Year r = Some (year ts) \<and> Month r = Some (month ts)
              \<and> Order_Month r = Some (period_str (year ts) (month ts))"
      then obtain ts where ts: "Order_Date r = Stamp ts" "Year r = Some (year ts)"
          "Month r = Some (month ts)" "Order_Month r = Some (period_str (year ts) (month ts))"
        by blast
      from r(1) ts(2,3) have "(year ts, month ts) \<in> ?pairs" by blast
      moreover from r(2) ts(4) have "k = (\<lambda>(y, m). period_str y m) (year ts, month ts)" by simp
      ultimately have "k \<in> (\<lambda>(y, m). period_str y m) ` ?pairs" by (rule rev_image_eqI)
      then show ?thesis by blast
    qed
  next
    fix k
    assume "k \<in> (\<lambda>(y, m). period_str y m) ` ?pairs \<union> ?nat"
    then show "k \<in> {k. \<exists>r \<in> set ?c. Order_Month r = Some k}"
    proof
      assume "k \<in> (\<lambda>(y, m). period_str y m) ` ?pairs"
      then obtain y m r where r: "k = period_str y m" "r \<in> set ?c" "Year r = Some y" "Month r = Some m"
        by auto
      from cleaned_row_cases [OF r(2)] r(3,4) have "Order_Month r = Some (period_str y m)"
        by auto
      with r(1,2) show ?thesis by blast
    next
      assume "k \<in> ?nat"
      then obtain r where r: "na = Some k" "r \<in> set ?c" "Order_Date r = Null"
        by blast
      from cleaned_row_cases [OF r(2)] r(1,3) have "Order_Month r = Some k"
        by auto
      with r(1,2) show ?thesis by blast
    qed
  qed
  with keys have "set (map fst (monthly_trend ?c)) = (\<lambda>(y, m). period_str y m) ` ?pairs \<union> ?nat"
    by simp
  moreover have "sorted (map fst (monthly_trend ?c))"
    unfolding mt by (rule sorted_groupby_sum)
  moreover have "distinct (map fst (monthly_trend ?c))"
    unfolding mt by (rule distinct_keys_groupby_sum)
  ultimately show ?thesis by blast
qed

text \<open>Where the missing period stays missing, the keys are the (year, month) pairs of the
  table and nothing else.\<close>

lemma monthly_trend_keys_missing:
  "set (map fst (monthly_trend (cleaned None pn pd t))) =
     (\<lambda>(y, m). period_str y m) `
        {(y, m). \<exists>r \<in> set (cleaned None pn pd t). Year r = Some y \<and> Month r = Some m}"
  using monthly_trend_keys [of None pn pd t] by simp

text \<open>
  C4. The claim: the monthly trend is in ascending order of the year-month key, and its keys
  are the (year, month) pairs of the cleaned table, no key arising from a row without a
  date. The code evaluated on a table whose only row has no date. Where \<^verbatim>\<open>astype(str)\<close>
  prints the missing period (pandas 1 and 2), the trend has the key \<^verbatim>\<open>NaT\<close>, though the
  table has no (year, month) pair and the yearly trend, grouped by \<^verbatim>\<open>Year\<close> and \<^verbatim>\<open>Month\<close>,
  has no row. Where the missing period stays missing (pandas 3), the trend has no row
  either, as the claim has it.
\<close>

theorem monthly_trend_undated_key:
  "map fst (monthly_trend (cleaned astype_str_pandas2 example_number example_date undated))
     = [''NaT'']
   \<and> List.map_filter year_month (cleaned astype_str_pandas2 example_number example_date undated)
     = []
   \<and> yearly_trend (cleaned astype_str_pandas2 example_number example_date undated) = []
   \<and> monthly_trend (cleaned astype_str_pandas3 example_number example_date undated) = []"
  by (simp add: cleaned_undated monthly_trend_def yearly_trend_def sort_values_def
      groupby_sum_def List.map_filter_simps year_month_def astype_str_pandas2_def
      astype_str_pandas3_def)

subsection \<open>Rankings\<close>

lemma head_take: "\<exists>k. head n rs = take k rs"
  by (auto simp: head_def)

lemma length_head: "0 \<le> n \<Longrightarrow> int (length (head n rs)) \<le> n"
  by (simp add: head_def)

lemma length_head_negative: "n < 0 \<Longrightarrow> length (head n rs) = length rs - nat (- n)"
  by (simp add: head_def)

lemma above_the_rest:
  assumes "sorted_wrt (\<lambda>a b. a \<ge> b) (map col rs)" and "distinct rs"
    and "x \<in> set (take k rs)" and "y \<in> set rs - set (take k rs)"
  shows "col y \<le> col x"
proof -
  have "rs = take k rs @ drop k rs" by simp
  then have "sorted_wrt (\<lambda>a b. a \<ge> b) (map col (take k rs) @ map col (drop k rs))"
    using assms(1) by (metis map_append)
  then have *: "\<forall>a \<in> set (map col (take k rs)). \<forall>b \<in> set (map col (drop k rs)). a \<ge> b"
    by (simp add: sorted_wrt_append)
  have "set rs = set (take k rs) \<union> set (drop k rs)"
    by (metis append_take_drop_id set_append)
  with assms(4) have "y \<in> set (drop k rs)" by blast
  with assms(3) * show ?thesis by simp
qed

text \<open>
  C6. \<^verbatim>\<open>top_customers(df, n)\<close>, for a number of rows \<open>n\<close> (not negative; 10 by default),
  groups by customer name, sums the sales and sorts by the sums in descending order. It
  returns the first \<open>n\<close> rows of that ranking, or all of them if there are fewer: one row per
  customer name it returns, with the sum of that customer's sales, the sums in descending
  order and each at least every sum left out; so at most \<open>n\<close> rows, and never more rows than
  there are customer names. This holds for every order the sort leaves among equal sums.
\<close>

theorem top_customers_rows:
  assumes "0 \<le> n"
  shows "length (top_customers tie df n) =
           min (nat n) (card {c. \<exists>r \<in> set df. Customer_Name r = Some c})
   \<and> int (length (top_customers tie df n)) \<le> n
   \<and> length (top_customers tie df n) \<le> card {c. \<exists>r \<in> set df. Customer_Name r = Some c}
   \<and> distinct (map fst (top_customers tie df n))
   \<and> sorted_wrt (\<lambda>a b. a \<ge> b) (map snd (top_customers tie df n))
   \<and> (\<forall>(c, s) \<in> set (top_customers tie df n).
         (\<exists>r \<in> set df. Customer_Name r = Some c) \<and>
         s = nansum (map (float_of \<circ> Sales) (filter (\<lambda>r. Customer_Name r = Some c) df)))
   \<and> (\<forall>(c, s) \<in> set (top_customers tie df n).
         \<forall>(c', s') \<in> set (groupby_sum Customer_Name df) - set (top_customers tie df n). s' \<le> s)"
proof -
  let ?G = "groupby_sum Customer_Name df"
  let ?R = "sort_values_desc tie snd ?G"
  have k: "top_customers tie df n = take (nat n) ?R"
    using assms by (simp add: top_customers_def head_def)
  have len: "length ?R = card {c. \<exists>r \<in> set df. Customer_Name r = Some c}"
    by (simp add: length_sort_values_desc length_groupby_sum)
  have desc: "sorted_wrt (\<lambda>a b. a \<ge> b) (map snd ?R)"
    by (rule descending_sort_values_desc)
  have dist: "distinct (map fst ?R)"
    by (rule distinct_keys_sort_values_desc)
  have sub: "set (top_customers tie df n) \<subseteq> set ?G"
    unfolding k using set_take_subset [of "nat n" ?R] by (simp add: set_sort_values_desc)
  have 0: "length (top_customers tie df n) =
           min (nat n) (card {c. \<exists>r \<in> set df. Customer_Name r = Some c})"
    unfolding k len [symmetric] by (simp add: min.commute)
  have 1: "int (length (top_customers tie df n)) \<le> n"
    using assms unfolding 0 by simp
  have 3: "length (top_customers tie df n) \<le> card {c. \<exists>r \<in> set df. Customer_Name r = Some c}"
    unfolding 0 by simp
  have 4: "distinct (map fst (top_customers tie df n))"
    unfolding k using dist by (simp add: take_map [symmetric] distinct_take)
  have 5: "sorted_wrt (\<lambda>a b. a \<ge> b) (map snd (top_customers tie df n))"
    unfolding k using desc by (simp add: take_map [symmetric] sorted_wrt_take)
  have 6: "\<forall>(c, s) \<in> set (top_customers tie df n).
         (\<exists>r \<in> set df. Customer_Name r = Some c) \<and>
         s = nansum (map (float_of \<circ> Sales) (filter (\<lambda>r. Customer_Name r = Some c) df))"
    using sub groupby_sum_row [of _ _ Customer_Name df] by blast
  have 7: "\<forall>(c, s) \<in> set (top_customers tie df n).
         \<forall>(c', s') \<in> set ?G - set (top_customers tie df n). s' \<le> s"
  proof (clarify)
    fix c s c' s'
    assume a: "(c, s) \<in> set (top_customers tie df n)" "(c', s') \<in> set ?G"
      "(c', s') \<notin> set (top_customers tie df n)"
    have "distinct ?R"
      by (simp add: distinct_sort_values_desc distinct_groupby_sum)
    with desc have "snd (c', s') \<le> snd (c, s)"
    proof (rule above_the_rest)
      show "(c, s) \<in> set (take (nat n) ?R)" using a(1) k by simp
      show "(c', s') \<in> set ?R - set (take (nat n) ?R)"
        using a(2,3) k by (simp add: set_sort_values_desc)
    qed
    then show "s' \<le> s" by simp
  qed
  from 0 1 3 4 5 6 7 show ?thesis by blast
qed

lemma customers_level:
  "groupby_sum Customer_Name (cleaned na example_number example_date level) =
     [(''Alice'', 100), (''Bob'', 100), (''Carol'', 40)]"
  by (simp add: cleaned_level groupby_sum_def List.map_filter_simps nansum_def float_of_def)

text \<open>Three customers and \<open>n = 2\<close>: two rows.\<close>

theorem top_customers_rows_witness:
  "length (top_customers as_they_come
      (cleaned astype_str_pandas3 example_number example_date level) 2) = 2
   \<and> distinct (map fst (top_customers as_they_come
      (cleaned astype_str_pandas3 example_number example_date level) 2))"
proof -
  let ?c = "cleaned astype_str_pandas3 example_number example_date level"
  have "card {c. \<exists>r \<in> set ?c. Customer_Name r = Some c} = 3"
    by (simp only: length_groupby_sum [symmetric] customers_level) simp
  with top_customers_rows [of 2 as_they_come ?c] show ?thesis
    by simp
qed

text \<open>
  C7, as amended. The regional ranking has one row per region of the table, with the sum of
  the region's sales, and the revenues never increase down the table. They need not
  decrease strictly: two regions of equal revenue follow each other, in an order the
  sort does not promise. This holds for every such order.
\<close>

theorem revenue_by_region_rows:
  "distinct (map fst (revenue_by_region tie df))
   \<and> set (map fst (revenue_by_region tie df)) = {g. \<exists>r \<in> set df. Region r = Some g}
   \<and> (\<forall>(g, s) \<in> set (revenue_by_region tie df).
         s = nansum (map (float_of \<circ> Sales) (filter (\<lambda>r. Region r = Some g) df)))
   \<and> sorted_wrt (\<lambda>a b. a \<ge> b) (map snd (revenue_by_region tie df))"
proof -
  have "set (map fst (revenue_by_region tie df)) = set (map fst (groupby_sum Region df))"
    by (simp add: revenue_by_region_def set_sort_values_desc)
  then have "set (map fst (revenue_by_region tie df)) = {g. \<exists>r \<in> set df. Region r = Some g}"
    by (simp only: set_keys_groupby_sum)
  moreover have "\<forall>(g, s) \<in> set (revenue_by_region tie df).
         s = nansum (map (float_of \<circ> Sales) (filter (\<lambda>r. Region r = Some g) df))"
    using groupby_sum_row(1) [of _ _ Region df]
    by (auto simp: revenue_by_region_def set_sort_values_desc)
  ultimately show ?thesis
    by (simp add: revenue_by_region_def distinct_keys_sort_values_desc
        descending_sort_values_desc)
qed

theorem revenue_by_region_rows_witness:
  "sorted_wrt (\<lambda>a b. a \<ge> b) (map snd (revenue_by_region as_they_come
      (cleaned astype_str_pandas2 example_number example_date level)))
   \<and> ''West'' \<in> set (map fst (revenue_by_region as_they_come
      (cleaned astype_str_pandas2 example_number example_date level)))
   \<and> sorted_wrt (\<lambda>a b. a \<ge> b) (map snd (revenue_by_region as_they_come
      (cleaned astype_str_pandas3 example_number example_date level)))
   \<and> ''West'' \<in> set (map fst (revenue_by_region as_they_come
      (cleaned astype_str_pandas3 example_number example_date level)))"
proof -
  have "''West'' \<in> {g. \<exists>r \<in> set (cleaned na example_number example_date level). Region r = Some g}"
    for na
    by (simp add: cleaned_level)
  with revenue_by_region_rows
      [of as_they_come "cleaned astype_str_pandas2 example_number example_date level"]
    revenue_by_region_rows
      [of as_they_come "cleaned astype_str_pandas3 example_number example_date level"]
  show ?thesis by blast
qed

lemma strictly_descending_distinct:
  fixes xs :: "'k::linorder list"
  shows "sorted_wrt (\<lambda>a b. a > b) xs \<Longrightarrow> distinct xs"
  by (induction xs) auto

lemma regions_level:
  "groupby_sum Region (cleaned na example_number example_date level) =
     [(''East'', 100), (''North'', 40), (''West'', 100)]"
  by (simp add: cleaned_level groupby_sum_def List.map_filter_simps nansum_def float_of_def)

text \<open>East and West both sold 100: in whatever order the sort leaves them, the revenues do
  not decrease strictly.\<close>

lemma revenue_level_not_strict:
  "\<not> sorted_wrt (\<lambda>a b. a > b)
       (map snd (revenue_by_region tie (cleaned na example_number example_date level)))"
proof
  let ?R = "revenue_by_region tie (cleaned na example_number example_date level)"
  assume "sorted_wrt (\<lambda>a b. a > b) (map snd ?R)"
  then have "distinct (map snd ?R)"
    by (rule strictly_descending_distinct)
  then have "inj_on snd (set ?R)"
    by (simp add: distinct_map)
  moreover have "set ?R = {(''East'', 100), (''North'', 40), (''West'', 100)}"
    by (simp add: revenue_by_region_def set_sort_values_desc regions_level)
  ultimately show False
    by (simp add: inj_on_def)
qed

theorem revenue_by_region_rows_counterexample:
  "\<not> sorted_wrt (\<lambda>a b. a > b)
       (map snd (revenue_by_region as_they_come
          (cleaned astype_str_pandas2 example_number example_date level)))
   \<and> \<not> sorted_wrt (\<lambda>a b. a > b)
       (map snd (revenue_by_region as_they_come
          (cleaned astype_str_pandas3 example_number example_date level)))"
  by (simp only: revenue_level_not_strict simp_thms)

subsection \<open>The year-by-month table\<close>

lemma yearly_two_years:
  "yearly_trend (cleaned na example_number example_date two_years) =
     [((2023, 1), 100), ((2024, 1), 300)]"
  by (simp add: cleaned_two_years yearly_trend_def sort_values_def groupby_sum_def
      List.map_filter_simps year_month_def nansum_def float_of_def)

lemma yearly_one_year:
  "yearly_trend (cleaned na example_number example_date one_year) =
     [((2023, 1), 100), ((2023, 2), 50)]"
  by (simp add: cleaned_one_year yearly_trend_def sort_values_def groupby_sum_def
      List.map_filter_simps year_month_def nansum_def float_of_def)

lemma yearly_zero_prior:
  "yearly_trend (cleaned na example_number example_date zero_prior) =
     [((2023, 1), 0), ((2024, 1), 100)]"
  by (simp add: cleaned_zero_prior yearly_trend_def sort_values_def groupby_sum_def
      List.map_filter_simps year_month_def nansum_def float_of_def)

lemma yoy_one_year:
  "yoy_pivot [((2023, 1), 100), ((2023, 2), 50)] =
     \<lparr>index = [1, 2],
      data = [(YearL 2023, [Fin 100, Fin 50]), (growth_label, [NaN, NaN])]\<rparr>"
  by (simp add: yoy_pivot_def pivot_table_def columns_of_def year_labels_def setitem_pivot_def
      agg_sum_def growth_label_def)

lemma yoy_zero_prior:
  "yoy_pivot [((2023, 1), 0), ((2024, 1), 100)] =
     \<lparr>index = [1],
      data = [(YearL 2023, [Fin 0]), (YearL 2024, [Fin 100]), (growth_label, [PInf])]\<rparr>"
  by (simp add: yoy_pivot_def pivot_table_def columns_of_def year_labels_def setitem_pivot_def
      getitem_def agg_sum_def growth_label_def fsub_def signed_inf_def)

lemma yoy_two_years:
  "yoy_pivot [((2023, 1), 100), ((2024, 1), 300)] =
     \<lparr>index = [1],
      data = [(YearL 2023, [Fin 100]), (YearL 2024, [Fin 300]), (growth_label, [Fin 200])]\<rparr>"
  by (simp add: yoy_pivot_def pivot_table_def columns_of_def year_labels_def setitem_pivot_def
      getitem_def agg_sum_def growth_label_def fsub_def signed_inf_def)

lemma index_pivot_table: "index (pivot_table ydf) = sort (remdups (map (snd \<circ> fst) ydf))"
  by (simp add: pivot_table_def Let_def)

lemma columns_pivot_table:
  "columns_of (pivot_table ydf) = map YearL (sort (remdups (map (fst \<circ> fst) ydf)))"
  by (simp add: pivot_table_def columns_of_def Let_def o_def)

lemma year_labels_YearL: "year_labels (map YearL ys) = ys"
  by (induction ys) (simp_all add: year_labels_def)

lemma years_pivot_table:
  "sort (year_labels (columns_of (pivot_table ydf))) = sort (remdups (map (fst \<circ> fst) ydf))"
  by (simp add: columns_pivot_table year_labels_YearL sorted_sort_id)

lemma length_years_pivot_table:
  "length (year_labels (columns_of (pivot_table ydf))) = length (remdups (map (fst \<circ> fst) ydf))"
  by (simp add: columns_pivot_table year_labels_YearL)

lemma map_of_year_columns:
  "y \<in> set ys \<Longrightarrow> map_of (map (\<lambda>y. (YearL y, f y)) ys) (YearL y) = Some (f y)"
  by (induction ys) auto

lemma getitem_pivot_table:
  assumes "y \<in> set (map (fst \<circ> fst) ydf)"
  shows "getitem (pivot_table ydf) (YearL y) =
     map (\<lambda>m. agg_sum (map snd (filter (\<lambda>r. fst r = (y, m)) ydf)))
       (sort (remdups (map (snd \<circ> fst) ydf)))"
proof -
  from assms have "y \<in> set (sort (remdups (map (fst \<circ> fst) ydf)))"
    by simp
  then show ?thesis
    by (simp add: getitem_def pivot_table_def Let_def map_of_year_columns)
qed

lemma getitem_setitem_pivot: "getitem (setitem_pivot p l col) l = col"
  by (simp add: getitem_def setitem_pivot_def update_conv')

lemma index_setitem_pivot: "index (setitem_pivot p l col) = index p"
  by (simp add: setitem_pivot_def)

lemma columns_setitem_pivot: "l \<in> set (columns_of (setitem_pivot p l col))"
  by (simp add: setitem_pivot_def columns_of_def update_keys)

lemma index_yoy_pivot: "index (yoy_pivot ydf) = sort (remdups (map (snd \<circ> fst) ydf))"
  by (simp add: yoy_pivot_def Let_def index_setitem_pivot index_pivot_table)

text \<open>Both branches of \<^verbatim>\<open>yoy_pivot\<close> assign the growth column, so it is a column of every
  table the function returns, and the check for it in \<^verbatim>\<open>plot_yoy_growth\<close> and in
  \<^verbatim>\<open>generate_insights\<close> never finds it missing.\<close>

lemma growth_column_present: "growth_label \<in> set (columns_of (yoy_pivot ydf))"
  by (simp add: yoy_pivot_def Let_def columns_setitem_pivot)

lemma plot_yoy_growth_draws: "plot_yoy_growth (yoy_pivot ydf) path \<noteq> None"
  by (simp add: plot_yoy_growth_def growth_column_present)

lemma growth_without_two_years:
  assumes "length (remdups (map (fst \<circ> fst) ydf)) < 2"
  shows "getitem (yoy_pivot ydf) growth_label = replicate (length (index (yoy_pivot ydf))) NaN"
  using assms
  by (simp add: yoy_pivot_def Let_def length_years_pivot_table getitem_setitem_pivot
      index_setitem_pivot)

lemma growth_of_sums:
  "fmul (fdiv (fsub (agg_sum ls) (agg_sum ps)) (agg_sum ps)) (Fin 100) =
     (if ls = [] \<or> ps = [] then NaN
      else if sum_list ps \<noteq> 0 then Fin ((sum_list ls - sum_list ps) / sum_list ps * 100)
      else if sum_list ls = 0 then NaN
      else if sum_list ls < 0 then MInf else PInf)"
  by (simp add: agg_sum_def fsub_def signed_inf_def)

text \<open>
  C2, as amended. With at least two years in the data, the growth of a month is
  \<open>(latest - prior) / prior * 100\<close>, from the sums of the month in the last year and in
  the year before it, whenever both sums exist and the prior one is not zero; it is missing
  when the month has no row in one of the two years. The claim wants it missing also when
  the prior sum is zero. The code divides without a check, and the float division gives an
  infinity there, of the sign of the latest sum, and \<^verbatim>\<open>nan\<close> only when the latest sum is zero
  as well.
\<close>

theorem yoy_growth_values:
  assumes "2 \<le> length (remdups (map (fst \<circ> fst) ydf))"
  shows "let ys = sort (remdups (map (fst \<circ> fst) ydf));
             latest = (\<lambda>m. map snd (filter (\<lambda>r. fst r = (last ys, m)) ydf));
             prior = (\<lambda>m. map snd (filter (\<lambda>r. fst r = (ys ! (length ys - 2), m)) ydf))
         in index (yoy_pivot ydf) = sort (remdups (map (snd \<circ> fst) ydf))
          \<and> getitem (yoy_pivot ydf) growth_label =
              map (\<lambda>m. if latest m = [] \<or> prior m = [] then NaN
                       else if sum_list (prior m) \<noteq> 0
                         then Fin ((sum_list (latest m) - sum_list (prior m)) / sum_list (prior m) * 100)
                       else if sum_list (latest m) = 0 then NaN
                       else if sum_list (latest m) < 0 then MInf else PInf)
                (index (yoy_pivot ydf))"
proof -
  let ?ys = "sort (remdups (map (fst \<circ> fst) ydf))"
  let ?ms = "sort (remdups (map (snd \<circ> fst) ydf))"
  from assms have len: "2 \<le> length ?ys" by simp
  have ne: "?ys \<noteq> []"
  proof
    assume "?ys = []"
    then have "length ?ys = 0" by (simp only: list.size)
    with len show False by linarith
  qed
  have "last ?ys \<in> set ?ys"
    using ne by (rule last_in_set)
  then have l: "last ?ys \<in> set (map (fst \<circ> fst) ydf)" by simp
  have "?ys ! (length ?ys - 2) \<in> set ?ys"
    using len by (intro nth_mem) linarith
  then have p: "?ys ! (length ?ys - 2) \<in> set (map (fst \<circ> fst) ydf)" by simp
  have "getitem (yoy_pivot ydf) growth_label =
      map (\<lambda>q. fmul q (Fin 100))
        (map2 fdiv
           (map2 fsub (getitem (pivot_table ydf) (YearL (last ?ys)))
              (getitem (pivot_table ydf) (YearL (?ys ! (length ?ys - 2)))))
           (getitem (pivot_table ydf) (YearL (?ys ! (length ?ys - 2)))))"
    using assms
    by (simp add: yoy_pivot_def Let_def years_pivot_table length_years_pivot_table
        getitem_setitem_pivot)
  also have "\<dots> =
      map (\<lambda>m. fmul (fdiv (fsub (agg_sum (map snd (filter (\<lambda>r. fst r = (last ?ys, m)) ydf)))
                            (agg_sum (map snd (filter (\<lambda>r. fst r = (?ys ! (length ?ys - 2), m)) ydf))))
                      (agg_sum (map snd (filter (\<lambda>r. fst r = (?ys ! (length ?ys - 2), m)) ydf))))
                (Fin 100)) ?ms"
    unfolding getitem_pivot_table [OF l] getitem_pivot_table [OF p]
    by (simp add: map2_map_map)
  finally show ?thesis
    unfolding Let_def index_yoy_pivot growth_of_sums by simp
qed

theorem yoy_growth_values_witness:
  "getitem (yoy_pivot (yearly_trend
      (cleaned astype_str_pandas2 example_number example_date two_years))) growth_label
     = [Fin 200]
   \<and> getitem (yoy_pivot (yearly_trend
      (cleaned astype_str_pandas3 example_number example_date two_years))) growth_label
     = [Fin 200]"
  using
    yoy_growth_values
      [of "yearly_trend (cleaned astype_str_pandas2 example_number example_date two_years)"]
    yoy_growth_values
      [of "yearly_trend (cleaned astype_str_pandas3 example_number example_date two_years)"]
  by (simp add: yearly_two_years Let_def)

text \<open>January sold nothing in 2023 and 100 in 2024: the growth of January is infinite.\<close>

theorem yoy_growth_values_counterexample:
  "getitem (yoy_pivot (yearly_trend
      (cleaned astype_str_pandas2 example_number example_date zero_prior))) (YearL 2023)
     = [Fin 0]
   \<and> getitem (yoy_pivot (yearly_trend
      (cleaned astype_str_pandas2 example_number example_date zero_prior))) growth_label
     = [PInf]
   \<and> getitem (yoy_pivot (yearly_trend
      (cleaned astype_str_pandas3 example_number example_date zero_prior))) (YearL 2023)
     = [Fin 0]
   \<and> getitem (yoy_pivot (yearly_trend
      (cleaned astype_str_pandas3 example_number example_date zero_prior))) growth_label
     = [PInf]"
  by (simp add: yearly_zero_prior yoy_zero_prior getitem_def growth_label_def)

text \<open>
  C1. With fewer than two years the growth column is all missing, and the claim has the growth
  chart skipped and the section of the report left out, without an error. The code evaluated
  on a table of one year: the column is there (all missing), so \<^verbatim>\<open>plot_yoy_growth\<close> goes on to
  draw and save the chart, and \<^verbatim>\<open>generate_insights\<close> enters the section, where the month of
  the largest growth does not exist. (The table has no missing date, so \<open>na\<close> plays no part,
  nor does the order of equal sums, \<open>tie\<close>.)
\<close>

theorem one_year_growth_chart_and_report:
  "getitem (yoy_pivot (yearly_trend (cleaned na example_number example_date one_year))) growth_label
     = [NaN, NaN]
   \<and> growth_label \<in>
       set (columns_of (yoy_pivot (yearly_trend (cleaned na example_number example_date one_year))))
   \<and> plot_yoy_growth (yoy_pivot (yearly_trend (cleaned na example_number example_date one_year)))
       ''yoy_growth_chart.png''
     = Some \<lparr>saved_as = ''yoy_growth_chart.png'', title = ''Year-over-Year Monthly Growth (%)'',
             x_values = [1, 2], y_values = [NaN, NaN]\<rparr>
   \<and> generate_insights (compute_kpis (cleaned na example_number example_date one_year))
       (revenue_by_region tie (cleaned na example_number example_date one_year))
       (top_customers tie (cleaned na example_number example_date one_year) 10)
       (yoy_pivot (yearly_trend (cleaned na example_number example_date one_year)))
     = Inl No_Valid_Growth"
  by (simp add: yearly_one_year yoy_one_year getitem_def columns_of_def plot_yoy_growth_def
      generate_insights_def idxmax_def Let_def growth_label_def)

subsection \<open>The loader\<close>

lemma last_dropWhile: "dropWhile P xs \<noteq> [] \<Longrightarrow> last (dropWhile P xs) = last xs"
  by (induction xs) (auto split: if_splits)

lemma strip_ends:
  assumes "strip s \<noteq> []"
  shows "\<not> isspace (hd (strip s))" and "\<not> isspace (last (strip s))"
proof -
  let ?d = "dropWhile isspace s"
  let ?e = "dropWhile isspace (rev ?d)"
  from assms have e: "?e \<noteq> []" by (simp add: strip_def)
  have d: "?d \<noteq> []"
  proof
    assume a: "?d = []"
    have "?e = []" unfolding a by simp
    with e show False by contradiction
  qed
  have "hd (strip s) = last ?e"
    using e by (simp add: strip_def hd_rev)
  also have "\<dots> = last (rev ?d)"
    using e by (rule last_dropWhile)
  also have "\<dots> = hd ?d"
    using d by (simp add: last_rev)
  finally show "\<not> isspace (hd (strip s))"
    using hd_dropWhile [OF d] by simp
  have "last (strip s) = hd ?e"
    using e by (simp add: strip_def last_rev)
  then show "\<not> isspace (last (strip s))"
    using hd_dropWhile [OF e] by simp
qed

text \<open>The first attempt that does not end in a decoding error decides the result.\<close>

lemma try_encodings_result:
  "snd (try_encodings read_csv path encs) =
     (case List.find (\<lambda>enc. read_csv path enc \<noteq> UnicodeDecodeError) encs of
        None \<Rightarrow> Inl (ValueError ''Unable to read the CSV. Try re-saving as UTF-8.'')
      | Some enc \<Rightarrow>
          (case read_csv path enc of
             Parsed df \<Rightarrow> Inr (df\<lparr>columns := map strip (columns df)\<rparr>)
           | UnicodeDecodeError \<Rightarrow>
               Inl (ValueError ''Unable to read the CSV. Try re-saving as UTF-8.'')
           | Raises e \<Rightarrow> Inl (Uncaught e)))"
  by (induction encs) (auto split: attempt.splits prod.splits)

lemma try_encodings_ValueError:
  "(\<exists>msg. snd (try_encodings read_csv path encs) = Inl (ValueError msg)) \<longleftrightarrow>
     (\<forall>enc \<in> set encs. read_csv path enc = UnicodeDecodeError)"
  by (induction encs) (auto split: attempt.splits prod.splits)

text \<open>
  C8, as amended. \<^verbatim>\<open>load_data\<close> tries \<^verbatim>\<open>utf-8\<close>, \<^verbatim>\<open>latin1\<close> and \<^verbatim>\<open>cp1252\<close> in this order and
  goes on to the next encoding only after a decoding error. It returns the table of the first
  attempt that succeeds, if every attempt before it ended in a decoding error, with the
  column names stripped of the white space around them. It raises its own error
  (\<^verbatim>\<open>ValueError\<close>) if and only if every attempt ends in a decoding error. An attempt that
  fails in another way ends the function with that exception: no further encoding is tried.
\<close>

theorem load_data_result:
  "snd (load_data read_csv path) =
     (case List.find (\<lambda>enc. read_csv path enc \<noteq> UnicodeDecodeError)
             [''utf-8'', ''latin1'', ''cp1252''] of
        None \<Rightarrow> Inl (ValueError ''Unable to read the CSV. Try re-saving as UTF-8.'')
      | Some enc \<Rightarrow>
          (case read_csv path enc of
             Parsed df \<Rightarrow> Inr (df\<lparr>columns := map strip (columns df)\<rparr>)
           | UnicodeDecodeError \<Rightarrow>
               Inl (ValueError ''Unable to read the CSV. Try re-saving as UTF-8.'')
           | Raises e \<Rightarrow> Inl (Uncaught e)))
   \<and> ((\<exists>msg. snd (load_data read_csv path) = Inl (ValueError msg)) \<longleftrightarrow>
        (\<forall>enc \<in> set [''utf-8'', ''latin1'', ''cp1252'']. read_csv path enc = UnicodeDecodeError))
   \<and> (\<forall>df. snd (load_data read_csv path) = Inr df \<longrightarrow>
        (\<forall>c \<in> set (columns df). c \<noteq> [] \<longrightarrow> \<not> isspace (hd c) \<and> \<not> isspace (last c)))"
proof -
  have 1: "snd (load_data read_csv path) =
     (case List.find (\<lambda>enc. read_csv path enc \<noteq> UnicodeDecodeError)
             [''utf-8'', ''latin1'', ''cp1252''] of
        None \<Rightarrow> Inl (ValueError ''Unable to read the CSV. Try re-saving as UTF-8.'')
      | Some enc \<Rightarrow>
          (case read_csv path enc of
             Parsed df \<Rightarrow> Inr (df\<lparr>columns := map strip (columns df)\<rparr>)
           | UnicodeDecodeError \<Rightarrow>
               Inl (ValueError ''Unable to read the CSV. Try re-saving as UTF-8.'')
           | Raises e \<Rightarrow> Inl (Uncaught e)))"
    unfolding load_data_def encodings_def by (rule try_encodings_result)
  have 2: "(\<exists>msg. snd (load_data read_csv path) = Inl (ValueError msg)) \<longleftrightarrow>
        (\<forall>enc \<in> set [''utf-8'', ''latin1'', ''cp1252'']. read_csv path enc = UnicodeDecodeError)"
    unfolding load_data_def encodings_def by (rule try_encodings_ValueError)
  have 3: "\<forall>c \<in> set (columns df). c \<noteq> [] \<longrightarrow> \<not> isspace (hd c) \<and> \<not> isspace (last c)"
    if "snd (load_data read_csv path) = Inr df" for df
  proof -
    from that 1 obtain df0 where "df = df0\<lparr>columns := map strip (columns df0)\<rparr>"
      by (auto split: option.splits attempt.splits)
    then have cols: "set (columns df) = strip ` set (columns df0)"
      by simp
    show ?thesis
    proof (intro ballI impI)
      fix c
      assume c: "c \<in> set (columns df)" "c \<noteq> []"
      then obtain s where "c = strip s"
        using cols by auto
      with c(2) show "\<not> isspace (hd c) \<and> \<not> isspace (last c)"
        using strip_ends [of s] by simp
    qed
  qed
  from 1 2 3 show ?thesis by blast
qed

theorem load_data_result_witness:
  "snd (load_data latin1_file ''sales.csv'') =
     Inr \<lparr>columns = [''Order_Date'', ''Sales'', ''Region''], body = ()\<rparr>
   \<and> (\<exists>msg. snd (load_data undecodable ''sales.csv'') = Inl (ValueError msg))"
proof -
  have "snd (load_data latin1_file ''sales.csv'') =
     Inr \<lparr>columns = [''Order_Date'', ''Sales'', ''Region''], body = ()\<rparr>"
    using load_data_result [of latin1_file "''sales.csv''"]
    by (simp add: latin1_file_def strip_def isspace_def)
  moreover have "\<exists>msg. snd (load_data undecodable ''sales.csv'') = Inl (ValueError msg)"
    using load_data_result [of undecodable "''sales.csv''"]
    by (simp add: undecodable_def)
  ultimately show ?thesis by blast
qed

text \<open>A file that is not there: every attempt fails, and what is raised is the exception of
  the first attempt.\<close>

theorem load_data_result_counterexample:
  "no_file ''sales.csv'' ''utf-8'' = Raises FileNotFoundError
   \<and> no_file ''sales.csv'' ''latin1'' = Raises FileNotFoundError
   \<and> no_file ''sales.csv'' ''cp1252'' = Raises FileNotFoundError
   \<and> load_data no_file ''sales.csv'' = ([], Inl (Uncaught FileNotFoundError))"
  by (simp add: load_data_def encodings_def no_file_def)

end
